theory Spec2Isabelle
  imports Complex_Main "HOL-Library.Option_ord"
begin

section \<open>JavaScript values and numbers\<close>

text \<open>
  The predictor works on JavaScript numbers and on JSON-like values returned by the
  text generators. A number is a finite value, one of the two infinities, or NaN.
  Finite arithmetic is taken to be exact (a real number): rounding errors of IEEE
  doubles, overflow of finite sums to Infinity and the sign of zero are outside the
  model. An object is the list of its own properties, each key once.
\<close>

datatype jsnum = Fin real | PosInf | NegInf | NaN

datatype jsval =
    JUndefined
  | JNull
  | JBool bool
  | JNum jsnum
  | JStr string
  | JArr "jsval list"
  | JObj "(string \<times> jsval) list"

datatype exn = TypeError | JsError string

text \<open>Sequencing of computations that may throw: the first exception wins.\<close>

definition bindE :: "exn + 'a \<Rightarrow> ('a \<Rightarrow> exn + 'b) \<Rightarrow> exn + 'b" where
  "bindE m f = (case m of Inl e \<Rightarrow> Inl e | Inr x \<Rightarrow> f x)"

fun js_add :: "jsnum \<Rightarrow> jsnum \<Rightarrow> jsnum" where
  "js_add (Fin x) (Fin y) = Fin (x + y)"
| "js_add NaN _ = NaN"
| "js_add _ NaN = NaN"
| "js_add PosInf NegInf = NaN"
| "js_add NegInf PosInf = NaN"
| "js_add PosInf _ = PosInf"
| "js_add _ PosInf = PosInf"
| "js_add NegInf _ = NegInf"
| "js_add _ NegInf = NegInf"

fun js_neg :: "jsnum \<Rightarrow> jsnum" where
  "js_neg (Fin x) = Fin (- x)"
| "js_neg PosInf = NegInf"
| "js_neg NegInf = PosInf"
| "js_neg NaN = NaN"

definition js_sub :: "jsnum \<Rightarrow> jsnum \<Rightarrow> jsnum" where
  "js_sub x y = js_add x (js_neg y)"

fun js_div :: "jsnum \<Rightarrow> jsnum \<Rightarrow> jsnum" where
  "js_div NaN _ = NaN"
| "js_div _ NaN = NaN"
| "js_div (Fin x) (Fin y) =
     (if y \<noteq> 0 then Fin (x / y)
      else if 0 < x then PosInf else if x < 0 then NegInf else NaN)"
| "js_div (Fin x) PosInf = Fin 0"
| "js_div (Fin x) NegInf = Fin 0"
| "js_div PosInf (Fin y) = (if 0 \<le> y then PosInf else NegInf)"
| "js_div NegInf (Fin y) = (if 0 \<le> y then NegInf else PosInf)"
| "js_div _ _ = NaN"

fun js_lt :: "jsnum \<Rightarrow> jsnum \<Rightarrow> bool" where
  "js_lt NaN _ = False"
| "js_lt _ NaN = False"
| "js_lt (Fin x) (Fin y) = (x < y)"
| "js_lt NegInf y = (y \<noteq> NegInf)"
| "js_lt x PosInf = (x \<noteq> PosInf)"
| "js_lt _ _ = False"

fun js_le :: "jsnum \<Rightarrow> jsnum \<Rightarrow> bool" where
  "js_le NaN _ = False"
| "js_le _ NaN = False"
| "js_le (Fin x) (Fin y) = (x \<le> y)"
| "js_le NegInf _ = True"
| "js_le _ PosInf = True"
| "js_le _ _ = False"

definition js_gt :: "jsnum \<Rightarrow> jsnum \<Rightarrow> bool" where
  "js_gt x y = js_lt y x"

definition js_ge :: "jsnum \<Rightarrow> jsnum \<Rightarrow> bool" where
  "js_ge x y = js_le y x"

fun isFinite :: "jsnum \<Rightarrow> bool" where
  "isFinite (Fin x) = True"
| "isFinite _ = False"

text \<open>\<^verbatim>\<open>!n\<close> is false exactly for the truthy numbers: everything but 0 and NaN.\<close>

definition truthyNum :: "jsnum \<Rightarrow> bool" where
  "truthyNum n = (n \<noteq> Fin 0 \<and> n \<noteq> NaN)"

fun truthy :: "jsval \<Rightarrow> bool" where
  "truthy JUndefined = False"
| "truthy JNull = False"
| "truthy (JBool b) = b"
| "truthy (JNum n) = truthyNum n"
| "truthy (JStr s) = (s \<noteq> [])"
| "truthy (JArr xs) = True"
| "truthy (JObj fs) = True"

fun typeof :: "jsval \<Rightarrow> string" where
  "typeof JUndefined = ''undefined''"
| "typeof JNull = ''object''"
| "typeof (JBool b) = ''boolean''"
| "typeof (JNum n) = ''number''"
| "typeof (JStr s) = ''string''"
| "typeof (JArr xs) = ''object''"
| "typeof (JObj fs) = ''object''"

text \<open>
  Property read \<^verbatim>\<open>v.k\<close> for the keys the predictor uses: a missing key reads as
  \<^verbatim>\<open>undefined\<close>, as does any such key of an array or a primitive; reading a
  property of \<^verbatim>\<open>null\<close> or \<^verbatim>\<open>undefined\<close> throws a TypeError.
\<close>

fun getProp :: "jsval \<Rightarrow> string \<Rightarrow> exn + jsval" where
  "getProp JUndefined k = Inl TypeError"
| "getProp JNull k = Inl TypeError"
| "getProp (JObj fs) k = Inr (case map_of fs k of None \<Rightarrow> JUndefined | Some v \<Rightarrow> v)"
| "getProp v k = Inr JUndefined"

text \<open>The operator \<^verbatim>\<open>a ?? b\<close>.\<close>

definition nullish :: "jsval \<Rightarrow> jsval \<Rightarrow> jsval" where
  "nullish a b = (if a = JNull \<or> a = JUndefined then b else a)"

text \<open>
  Built-in functions of the language that the code calls and that are not part of the
  repository: the conversion of a string to a number, the conversion of an array to a
  string, and \<^verbatim>\<open>JSON.parse\<close> (\<open>None\<close> when it throws a SyntaxError). They are
  parameters of the model, as are the text that a template string prints for a number
  and the time value (milliseconds since the epoch) of \<^verbatim>\<open>new Date(s)\<close> for a string,
  \<open>None\<close> for an invalid date, and the class \<^verbatim>\<open>\s\<close> of regular expressions.
\<close>

record host =
  StringToNumber :: "string \<Rightarrow> jsnum"
  ArrayToString :: "jsval list \<Rightarrow> string"
  JSON_parse :: "string \<Rightarrow> jsval option"
  NumberToString :: "real \<Rightarrow> string"
  Date_parse :: "string \<Rightarrow> int option"
  whiteSpace :: "char \<Rightarrow> bool"

text \<open>\<^verbatim>\<open>Number(value)\<close> on JSON-like values; a plain object converts to NaN.\<close>

fun Number :: "host \<Rightarrow> jsval \<Rightarrow> jsnum" where
  "Number h JUndefined = NaN"
| "Number h JNull = Fin 0"
| "Number h (JBool b) = (if b then Fin 1 else Fin 0)"
| "Number h (JNum n) = n"
| "Number h (JStr s) = StringToNumber h s"
| "Number h (JArr xs) = StringToNumber h (ArrayToString h xs)"
| "Number h (JObj fs) = NaN"

section \<open>Helpers of the predictor\<close>

text \<open>
  \<^verbatim>\<open>toNumber\<close> of the predictor: a non-NaN number is returned as it is, anything else
  goes through \<^verbatim>\<open>Number\<close>, and NaN becomes \<^verbatim>\<open>null\<close>. Infinity is not rejected.
\<close>

definition toNumber :: "host \<Rightarrow> jsval \<Rightarrow> jsnum option" where
  "toNumber h v =
     (case v of
        JNum n \<Rightarrow> (if n \<noteq> NaN then Some n else (if Number h v = NaN then None else Some (Number h v)))
      | _ \<Rightarrow> (if Number h v = NaN then None else Some (Number h v)))"

text \<open>\<^verbatim>\<open>Math.round(x)\<close> is the floor of \<open>x + 1/2\<close>.\<close>

definition round2 :: "real \<Rightarrow> real" where
  "round2 x = of_int \<lfloor>x * 100 + 1 / 2\<rfloor> / 100"

fun round_js :: "jsnum \<Rightarrow> jsnum" where
  "round_js (Fin x) = Fin (round2 x)"
| "round_js PosInf = PosInf"
| "round_js NegInf = NegInf"
| "round_js NaN = NaN"

definition clamp :: "real \<Rightarrow> real \<Rightarrow> real \<Rightarrow> real" where
  "clamp mn mx v = max mn (min mx v)"

section \<open>The canonical prediction\<close>

record Probabilities =
  home :: jsnum
  draw :: jsnum
  away :: jsnum

record BettingAdvice =
  recommendation :: jsval
  confidence :: jsnum
  reasoning :: jsval

record Prediction =
  match_id :: jsval
  prediction :: jsval
  probabilities :: Probabilities
  explanation :: jsval
  betting_advice :: BettingAdvice
  engine :: "string option"

section \<open>Response normalizer: validation of a candidate\<close>

definition normalizePrediction :: "host \<Rightarrow> jsval \<Rightarrow> jsval \<Rightarrow> exn + Prediction option" where
  "normalizePrediction h payload matchId =
     (if \<not> truthy payload \<or> typeof payload \<noteq> ''object'' then Inr None
      else
        bindE (getProp payload ''probabilities'') (\<lambda>pv.
        let probs = nullish pv (JObj []) in
        bindE (getProp probs ''home'') (\<lambda>vh.
        let probHome = toNumber h vh in
        bindE (getProp probs ''draw'') (\<lambda>vd.
        let probDraw = toNumber h vd in
        bindE (getProp probs ''away'') (\<lambda>va.
        let probAway = toNumber h va in
        (case (probHome, probDraw, probAway) of
           (Some ph, Some pd, Some pa) \<Rightarrow>
             (let total = js_add (js_add ph pd) pa in
              if \<not> truthyNum total \<or> js_le total (Fin 0) then Inr None
              else
                let normalized = \<lparr> home = round_js (js_div ph total),
                                    draw = round_js (js_div pd total),
                                    away = round_js (js_div pa total) \<rparr> in
                bindE (getProp payload ''betting_advice'') (\<lambda>bv.
                let bettingAdvice = nullish bv (JObj []) in
                bindE (getProp bettingAdvice ''confidence'') (\<lambda>cv.
                let confidenceValue = toNumber h cv;
                    safeConfidence = (case confidenceValue of None \<Rightarrow> Fin 0 | Some c \<Rightarrow> round_js c) in
                bindE (getProp payload ''match_id'') (\<lambda>mv.
                bindE (getProp payload ''prediction'') (\<lambda>prv.
                bindE (getProp payload ''explanation'') (\<lambda>ev.
                bindE (getProp bettingAdvice ''recommendation'') (\<lambda>rv.
                bindE (getProp bettingAdvice ''reasoning'') (\<lambda>sv.
                Inr (Some \<lparr> match_id = nullish mv matchId,
                             prediction = nullish prv (JStr ''Unentschieden''),
                             probabilities = normalized,
                             explanation = nullish ev (JStr ''Keine Erklaerung vorhanden.''),
                             betting_advice =
                               \<lparr> recommendation = nullish rv (JStr ''Keine Empfehlung''),
                                 confidence = safeConfidence,
                                 reasoning = nullish sv (JStr ''Keine Begruendung vorhanden.'') \<rparr>,
                             engine = None \<rparr>)))))))))
         | _ \<Rightarrow> Inr None))))))"

text \<open>
  Reading a property where the source has already excluded \<^verbatim>\<open>null\<close> and
  \<^verbatim>\<open>undefined\<close>, and the three probability fields and the confidence field of a
  payload as \<open>normalizePrediction\<close> converts them.
\<close>

definition readProp :: "jsval \<Rightarrow> string \<Rightarrow> jsval" where
  "readProp v k = (case getProp v k of Inl e \<Rightarrow> JUndefined | Inr x \<Rightarrow> x)"

definition probField :: "host \<Rightarrow> jsval \<Rightarrow> string \<Rightarrow> jsnum option" where
  "probField h payload k =
     toNumber h (readProp (nullish (readProp payload ''probabilities'') (JObj [])) k)"

definition confidenceField :: "host \<Rightarrow> jsval \<Rightarrow> jsnum option" where
  "confidenceField h payload =
     toNumber h (readProp (nullish (readProp payload ''betting_advice'') (JObj [])) ''confidence'')"

text \<open>
  A host for the closed examples below. Their payloads hold numbers only, so its
  conversions and its parser are not consulted on them; it prints every number as
  \<open>n\<close>, and it knows the time values of the dates that the examples use.
\<close>

definition sampleDates :: "(string \<times> int) list" where
  "sampleDates =
     [(''2024-05-04T14:00:00+00:00'', 1714831200000),
      (''2024-02-17T15:00:00+00:00'', 1708182000000),
      (''2024-02-24T15:00:00+00:00'', 1708786800000),
      (''2024-03-02T15:00:00+00:00'', 1709391600000),
      (''2024-03-09T15:00:00+00:00'', 1709996400000),
      (''2024-03-16T15:00:00+00:00'', 1710601200000),
      (''2024-03-23T15:00:00+00:00'', 1711206000000),
      (''2024-03-30T15:00:00+00:00'', 1711810800000),
      (''2024-04-06T15:00:00+00:00'', 1712415600000),
      (''2024-04-13T15:00:00+00:00'', 1713020400000),
      (''2024-04-20T15:00:00+00:00'', 1713625200000),
      (''2024-04-27T15:00:00+00:00'', 1714230000000),
      (''2023-04-01T15:00:00+00:00'', 1680361200000),
      (''2024-06-01T15:00:00+00:00'', 1717254000000)]"

definition sampleHost :: host where
  "sampleHost = \<lparr> StringToNumber = (\<lambda>s. NaN), ArrayToString = (\<lambda>xs. []),
                   JSON_parse = (\<lambda>s. None), NumberToString = (\<lambda>x. ''n''),
                   Date_parse = map_of sampleDates, whiteSpace = (\<lambda>c. c = CHR '' '') \<rparr>"

definition payloadOf :: "jsnum \<Rightarrow> jsnum \<Rightarrow> jsnum \<Rightarrow> jsval \<Rightarrow> jsval" where
  "payloadOf ph pd pa conf =
     JObj [(''prediction'', JStr ''Heimsieg''),
           (''probabilities'', JObj [(''home'', JNum ph), (''draw'', JNum pd), (''away'', JNum pa)]),
           (''betting_advice'', JObj [(''confidence'', conf)])]"

section \<open>Stored rows\<close>

text \<open>
  A row of the table \<^verbatim>\<open>matches\<close>. The columns \<^verbatim>\<open>sport\<close>, \<^verbatim>\<open>date\<close>,
  \<^verbatim>\<open>status\<close> and the team names are nullable text, the ids are integers; the score
  cells are kept as JavaScript values, since the feature engine converts them itself.
\<close>

record MatchRow =
  match_id :: int
  sport :: "string option"
  date :: "string option"
  status :: "string option"
  home_team_id :: "int option"
  away_team_id :: "int option"
  home_team :: "string option"
  away_team :: "string option"
  home_goals :: jsval
  away_goals :: jsval

text \<open>
  The features of a contest as \<^verbatim>\<open>getFeatures\<close> returns them. The four values are
  finite: the feature engine stores finite values only, and \<^verbatim>\<open>getFeatures\<close>
  replaces a NULL cell by 0.
\<close>

record Features =
  sport :: string
  home_form :: real
  away_form :: real
  home_goals_avg :: real
  away_goals_avg :: real

section \<open>Rule-based predictor\<close>

record SportMeta =
  analystLabel :: string
  scoringLabel :: string
  scoringLong :: string
  drawLabel :: string

definition SPORT_PROMPT_META :: "(string \<times> SportMeta) list" where
  "SPORT_PROMPT_META =
     [(''football'', \<lparr> analystLabel = ''Fussball-Analyst'', scoringLabel = ''Tore'',
                       scoringLong = ''Torproduktion'', drawLabel = ''Unentschieden'' \<rparr>),
      (''basketball'', \<lparr> analystLabel = ''Basketball-Analyst'', scoringLabel = ''Punkte'',
                         scoringLong = ''Punktproduktion'', drawLabel = ''Unentschieden'' \<rparr>)]"

text \<open>\<^verbatim>\<open>SPORT_PROMPT_META[sport] ?? SPORT_PROMPT_META.football\<close>, for the sport names
  that are keys of the table or of no object at all.\<close>

definition metaOf :: "string \<Rightarrow> SportMeta" where
  "metaOf sp =
     (case map_of SPORT_PROMPT_META sp of
        Some meta \<Rightarrow> meta
      | None \<Rightarrow> \<lparr> analystLabel = ''Fussball-Analyst'', scoringLabel = ''Tore'',
                   scoringLong = ''Torproduktion'', drawLabel = ''Unentschieden'' \<rparr>)"

text \<open>\<^verbatim>\<open>randomSpread(scale)\<close>, with the value \<open>r\<close> that \<^verbatim>\<open>Math.random()\<close> returned.\<close>

definition randomSpread :: "real \<Rightarrow> real \<Rightarrow> real" where
  "randomSpread r scale = (r - 0.5) * scale * 2"

text \<open>\<^verbatim>\<open>[a, b, c].join(' | ')\<close>.\<close>

definition join3 :: "string \<Rightarrow> string \<Rightarrow> string \<Rightarrow> string" where
  "join3 a b c = a @ '' | '' @ b @ '' | '' @ c"

text \<open>
  The three values of \<^verbatim>\<open>Math.random()\<close> are arguments, in the order in which the
  source draws them: for the home, the away and the draw probability.
\<close>

definition simpleRulePredict ::
  "host \<Rightarrow> MatchRow \<Rightarrow> Features \<Rightarrow> real \<Rightarrow> real \<Rightarrow> real \<Rightarrow> Prediction" where
  "simpleRulePredict h m features r1 r2 r3 =
     (let score = (home_form features - away_form features)
                  + (home_goals_avg features - away_goals_avg features);
          sp = (case MatchRow.sport m of None \<Rightarrow> ''football'' | Some s \<Rightarrow> s);
          meta = metaOf sp;
          (pred, recomm, conf) =
            (if score > 0.3 then (''Heimsieg'', ''Heimsieg'', min 0.85 (0.5 + \<bar>score\<bar>))
             else if score < - 0.3 then (''Auswaertssieg'', ''Auswaertssieg'', min 0.85 (0.5 + \<bar>score\<bar>))
             else (drawLabel meta,
                   if sp = ''basketball'' then ''Spread meiden'' else ''Unter 2.5 Tore'',
                   0.6));
          probHome = clamp 0.1 0.8 (0.5 + score + randomSpread r1 0.1);
          probAway = clamp 0.1 0.8 (0.5 - score + randomSpread r2 0.1);
          probDraw = clamp 0.05 0.6 (0.2 + randomSpread r3 0.1);
          total = probHome + probAway + probDraw
      in \<lparr> Prediction.match_id = JNum (Fin (of_int (MatchRow.match_id m))),
           prediction = JStr pred,
           probabilities = \<lparr> home = Fin (round2 (probHome / total)),
                             draw = Fin (round2 (probDraw / total)),
                             away = Fin (round2 (probAway / total)) \<rparr>,
           explanation = JStr (join3
             (''Regelbasiertes Modell Score='' @ NumberToString h (round2 score))
             (''Formdifferenz '' @ NumberToString h (round2 (home_form features - away_form features)))
             (scoringLabel meta @ ''-Differenz ''
                @ NumberToString h (round2 (home_goals_avg features - away_goals_avg features)))),
           betting_advice = \<lparr> recommendation = JStr recomm,
                              confidence = Fin (round2 conf),
                              reasoning = JStr (''Basierend auf Form- und '' @ scoringLabel meta
                                                @ ''-Differenz der Teams.'') \<rparr>,
           engine = Some ''rule-based'' \<rparr>)"


text \<open>Inputs of the closed examples for the rule-based predictor.\<close>

definition footballMatch :: MatchRow where
  "footballMatch = \<lparr> match_id = 1335952, MatchRow.sport = Some ''football'',
       date = Some ''2024-05-04T14:00:00+00:00'', status = Some ''NS'',
       home_team_id = Some 33, away_team_id = Some 34,
       home_team = Some ''Heim'', away_team = Some ''Gast'',
       home_goals = JNull, away_goals = JNull \<rparr>"

definition featuresOf :: "real \<Rightarrow> real \<Rightarrow> real \<Rightarrow> real \<Rightarrow> Features" where
  "featuresOf hf af hg ag =
     \<lparr> sport = ''football'', home_form = hf, away_form = af,
       home_goals_avg = hg, away_goals_avg = ag \<rparr>"

section \<open>Composed match ids\<close>



definition SPORT_OFFSETS :: "(string \<times> real) list" where
  "SPORT_OFFSETS = [(''football'', 0), (''basketball'', 5000000000)]"

text \<open>A \<^verbatim>\<open>Set\<close> keeps the order of insertion and ignores a value it holds already.\<close>

definition setAdd :: "'a list \<Rightarrow> 'a \<Rightarrow> 'a list" where
  "setAdd xs x = (if x \<in> set xs then xs else xs @ [x])"

fun candidateLoop :: "jsnum \<Rightarrow> real list \<Rightarrow> jsnum list \<Rightarrow> jsnum list" where
  "candidateLoop baseId [] candidates = candidates"
| "candidateLoop baseId (offset # rest) candidates =
     (if offset = 0 then candidateLoop baseId rest candidates
      else
        let c1 = setAdd candidates (js_add baseId (Fin offset));
            c2 = (if js_ge baseId (Fin offset) then setAdd c1 (js_sub baseId (Fin offset)) else c1)
        in candidateLoop baseId rest c2)"

definition makeCandidateMatchIds :: "host \<Rightarrow> jsval \<Rightarrow> jsnum list" where
  "makeCandidateMatchIds h matchId =
     (case toNumber h matchId of
        None \<Rightarrow> []
      | Some baseId \<Rightarrow>
          filter (\<lambda>v. isFinite v \<and> js_ge v (Fin 0))
            (candidateLoop baseId (map snd SPORT_OFFSETS) [baseId]))"

section \<open>Feature engine\<close>

text \<open>\<^verbatim>\<open>toNumber\<close> of the feature engine: a number is kept as it is (NaN too),
  \<^verbatim>\<open>null\<close> and \<^verbatim>\<open>undefined\<close> give \<^verbatim>\<open>null\<close>, anything else goes through
  \<^verbatim>\<open>Number\<close>.\<close>

definition featureToNumber :: "host \<Rightarrow> jsval \<Rightarrow> jsnum option" where
  "featureToNumber h v =
     (case v of
        JNum n \<Rightarrow> Some n
      | JNull \<Rightarrow> None
      | JUndefined \<Rightarrow> None
      | _ \<Rightarrow> (if Number h v = NaN then None else Some (Number h v)))"

definition toDate :: "host \<Rightarrow> string \<Rightarrow> int option" where
  "toDate h s = Date_parse h s"

text \<open>
  \<^verbatim>\<open>shiftDate\<close> moves the local calendar day; in a time zone with a fixed offset from
  UTC, which the model assumes, that is a shift by whole days of 86400000 ms.
\<close>

definition shiftDate :: "int \<Rightarrow> int \<Rightarrow> int" where
  "shiftDate d days = d + days * 86400000"

text \<open>Truthiness of a nullable text column or argument.\<close>

fun truthyStr :: "string option \<Rightarrow> bool" where
  "truthyStr None = False"
| "truthyStr (Some s) = (s \<noteq> [])"

record TeamStats =
  form :: jsnum
  avgGoalsFor :: jsnum

text \<open>The callback of \<^verbatim>\<open>filter\<close> in \<^verbatim>\<open>calcTeamStats\<close>.\<close>

definition relevantMatch ::
  "host \<Rightarrow> string option \<Rightarrow> int option \<Rightarrow> int option \<Rightarrow> MatchRow \<Rightarrow> bool" where
  "relevantMatch h teamName currentDate cutoff m =
     (case date m of
        None \<Rightarrow> False
      | Some ds \<Rightarrow>
          if ds = [] then False
          else
            (case toDate h ds of
               None \<Rightarrow> False
             | Some d \<Rightarrow>
                 let isTeam = (home_team m = teamName \<or> away_team m = teamName);
                     beforeCurrent = (case currentDate of Some c \<Rightarrow> d < c | None \<Rightarrow> True);
                     afterCutoff = (case cutoff of Some c \<Rightarrow> d \<ge> c | None \<Rightarrow> True)
                 in isTeam \<and> beforeCurrent \<and> afterCutoff))"

text \<open>The key of the comparator of \<^verbatim>\<open>sort\<close>: \<^verbatim>\<open>toDate(a.date)?.getTime() ?? 0\<close>.\<close>

definition dateKey :: "host \<Rightarrow> MatchRow \<Rightarrow> int" where
  "dateKey h m =
     (case date m of
        None \<Rightarrow> 0
      | Some ds \<Rightarrow> (case toDate h ds of None \<Rightarrow> 0 | Some t \<Rightarrow> t))"

text \<open>\<^verbatim>\<open>xs.slice(-n)\<close>: the last \<open>n\<close> elements; \<^verbatim>\<open>slice(-0)\<close> is the whole array.\<close>

definition sliceLast :: "nat \<Rightarrow> 'a list \<Rightarrow> 'a list" where
  "sliceLast n xs = (if n = 0 then xs else drop (length xs - n) xs)"

text \<open>The loop over the window: the state is \<open>(wins, gamesCount, goalsForTotal)\<close>.\<close>

fun statsLoop ::
  "host \<Rightarrow> string option \<Rightarrow> MatchRow list \<Rightarrow> nat \<times> nat \<times> jsnum \<Rightarrow> nat \<times> nat \<times> jsnum" where
  "statsLoop h teamName [] acc = acc"
| "statsLoop h teamName (m # ms) (wins, gamesCount, goalsForTotal) =
     (case (featureToNumber h (home_goals m), featureToNumber h (away_goals m)) of
        (Some homeGoals, Some awayGoals) \<Rightarrow>
          if home_team m = teamName
          then statsLoop h teamName ms
                 (if js_gt homeGoals awayGoals then wins + 1 else wins,
                  gamesCount + 1, js_add goalsForTotal homeGoals)
          else statsLoop h teamName ms
                 (if js_gt awayGoals homeGoals then wins + 1 else wins,
                  gamesCount + 1, js_add goalsForTotal awayGoals)
      | _ \<Rightarrow> statsLoop h teamName ms (wins, gamesCount, goalsForTotal))"

text \<open>
  \<^verbatim>\<open>Array.prototype.sort\<close> is stable, and so is \<open>sort_key\<close>. The two counters are
  natural numbers; they become JavaScript numbers where the source divides.
\<close>

definition calcTeamStats ::
  "host \<Rightarrow> MatchRow list \<Rightarrow> string option \<Rightarrow> string option \<Rightarrow> nat \<Rightarrow> TeamStats" where
  "calcTeamStats h matches teamName currentDateStr windowSize =
     (if \<not> truthyStr teamName then \<lparr> form = Fin 0, avgGoalsFor = Fin 0 \<rparr>
      else
        let currentDate = (case currentDateStr of
                             None \<Rightarrow> None
                           | Some cs \<Rightarrow> if cs = [] then None else toDate h cs);
            cutoff = (case currentDate of None \<Rightarrow> None | Some c \<Rightarrow> Some (shiftDate c (- 365)));
            relevant = sliceLast windowSize
                         (sort_key (dateKey h)
                            (filter (relevantMatch h teamName currentDate cutoff) matches))
        in
          if relevant = [] then \<lparr> form = Fin 0, avgGoalsFor = Fin 0 \<rparr>
          else
            (case statsLoop h teamName relevant (0, 0, Fin 0) of
               (wins, gamesCount, goalsForTotal) \<Rightarrow>
                 let denominator = max gamesCount 1;
                     frm = js_div (Fin (real wins)) (Fin (real denominator));
                     avg = (if gamesCount \<noteq> 0 then js_div goalsForTotal (Fin (real gamesCount))
                            else Fin 0)
                 in \<lparr> form = (if isFinite frm then frm else Fin 0),
                      avgGoalsFor = (if isFinite avg then round_js avg else Fin 0) \<rparr>))"






definition refDate :: "host \<Rightarrow> string option \<Rightarrow> int option" where
  "refDate h currentDateStr =
     (case currentDateStr of None \<Rightarrow> None | Some cs \<Rightarrow> if cs = [] then None else toDate h cs)"








text \<open>Rows of the closed examples: matches of the team \<open>Heim\<close>.\<close>

definition played :: "int \<Rightarrow> string \<Rightarrow> string \<Rightarrow> string \<Rightarrow> jsval \<Rightarrow> jsval \<Rightarrow> MatchRow" where
  "played i d hm aw hg ag =
     \<lparr> match_id = i, MatchRow.sport = Some ''football'', date = Some d, status = Some ''FT'',
       home_team_id = None, away_team_id = None,
       home_team = Some hm, away_team = Some aw, home_goals = hg, away_goals = ag \<rparr>"

definition elevenMatches :: "MatchRow list" where
  "elevenMatches =
     [played 1 ''2024-02-17T15:00:00+00:00'' ''Heim'' ''A'' (JNum (Fin 5)) (JNum (Fin 0)),
      played 2 ''2024-02-24T15:00:00+00:00'' ''B'' ''Heim'' (JNum (Fin 1)) (JNum (Fin 0)),
      played 3 ''2024-03-02T15:00:00+00:00'' ''Heim'' ''C'' (JNum (Fin 0)) (JNum (Fin 1)),
      played 4 ''2024-03-09T15:00:00+00:00'' ''D'' ''Heim'' (JNum (Fin 1)) (JNum (Fin 0)),
      played 5 ''2024-03-16T15:00:00+00:00'' ''Heim'' ''E'' (JNum (Fin 0)) (JNum (Fin 1)),
      played 6 ''2024-03-23T15:00:00+00:00'' ''F'' ''Heim'' (JNum (Fin 1)) (JNum (Fin 0)),
      played 7 ''2024-03-30T15:00:00+00:00'' ''Heim'' ''G'' (JNum (Fin 0)) (JNum (Fin 1)),
      played 8 ''2024-04-06T15:00:00+00:00'' ''H'' ''Heim'' (JNum (Fin 1)) (JNum (Fin 0)),
      played 9 ''2024-04-13T15:00:00+00:00'' ''Heim'' ''I'' (JNum (Fin 0)) (JNum (Fin 1)),
      played 10 ''2024-04-20T15:00:00+00:00'' ''J'' ''Heim'' (JNum (Fin 1)) (JNum (Fin 0)),
      played 11 ''2024-04-27T15:00:00+00:00'' ''Heim'' ''K'' JNull JNull]"


section \<open>Response normalizer: finding the candidate\<close>

text \<open>
  The match of \<^verbatim>\<open>/\{[\s\S]*\}/\<close>: from the first opening brace to the last closing
  brace after it.
\<close>

definition braceSpan :: "string \<Rightarrow> string option" where
  "braceSpan text =
     (let t = dropWhile (\<lambda>c. c \<noteq> CHR ''{'') text;
          r = rev (dropWhile (\<lambda>c. c \<noteq> CHR ''}'') (rev t))
      in if r = [] then None else Some r)"

text \<open>
  \<^verbatim>\<open>replace(/,\s*}/g, '}')\<close> and \<^verbatim>\<open>replace(/,\s*]/g, ']')\<close>, for the closing
  character \<open>cl\<close>: a comma that is followed by white space and then by \<open>cl\<close> is dropped
  together with the white space.
\<close>

definition closesAfter :: "host \<Rightarrow> char \<Rightarrow> string \<Rightarrow> bool" where
  "closesAfter h cl cs = (case dropWhile (whiteSpace h) cs of [] \<Rightarrow> False | d # ds \<Rightarrow> d = cl)"

fun stripComma :: "host \<Rightarrow> char \<Rightarrow> bool \<Rightarrow> string \<Rightarrow> string" where
  "stripComma h cl skipping [] = []"
| "stripComma h cl skipping (c # cs) =
     (if skipping then (if c = cl then c # stripComma h cl False cs else stripComma h cl True cs)
      else if c = CHR '','' \<and> closesAfter h cl cs then stripComma h cl True cs
      else c # stripComma h cl False cs)"

definition sanitize :: "host \<Rightarrow> string \<Rightarrow> string" where
  "sanitize h text =
     stripComma h (CHR '']'') False
       (stripComma h (CHR ''}'') False
          (map (\<lambda>c. if c = CHR 0x27 then CHR 0x22 else c) text))"

definition extractJson :: "host \<Rightarrow> jsval \<Rightarrow> jsval" where
  "extractJson h text =
     (case text of
        JStr s \<Rightarrow>
          (if s = [] then JNull
           else
             (case braceSpan s of
                None \<Rightarrow> JNull
              | Some m \<Rightarrow>
                  (case JSON_parse h m of
                     Some v \<Rightarrow> v
                   | None \<Rightarrow> (case JSON_parse h (sanitize h m) of Some v \<Rightarrow> v | None \<Rightarrow> JNull))))
      | _ \<Rightarrow> JNull)"

definition parseJsonSafe :: "host \<Rightarrow> string \<Rightarrow> jsval" where
  "parseJsonSafe h s = (case JSON_parse h s of Some v \<Rightarrow> v | None \<Rightarrow> JNull)"

definition textualKeys :: "string list" where
  "textualKeys = [''response'', ''completion'', ''output'', ''text'']"

definition arrayKeys :: "string list" where
  "arrayKeys = [''results'', ''generations'', ''choices'']"

text \<open>The first truthy result of a loop that returns as soon as it has one.\<close>

definition firstTruthy :: "jsval list \<Rightarrow> jsval option" where
  "firstTruthy vs = find truthy vs"

text \<open>
  Every property read of \<^verbatim>\<open>normalizeIncomingPayload\<close> is on a value that has passed
  the test for an object, so none can throw. An array passes the test as well; it has
  none of the properties that are read, and the result is \<^verbatim>\<open>null\<close>.
\<close>

function normalizeIncomingPayload :: "host \<Rightarrow> jsval \<Rightarrow> jsval" where
  "normalizeIncomingPayload h raw =
     (if \<not> truthy raw then JNull
      else
        (case raw of
           JStr s \<Rightarrow> nullish (extractJson h raw) (parseJsonSafe h s)
         | JObj fs \<Rightarrow>
             (if truthy (readProp raw ''prediction'') \<and> truthy (readProp raw ''probabilities'')
              then raw
              else
                (case firstTruthy
                        (map (normalizeIncomingPayload h)
                           (filter (\<lambda>v. typeof v = ''string'')
                              (map (readProp (JObj fs)) textualKeys))) of
                   Some parsed \<Rightarrow> parsed
                 | None \<Rightarrow>
                     (case firstTruthy
                             (map (normalizeIncomingPayload h)
                                (concat (map (\<lambda>key. case readProp (JObj fs) key of
                                                       JArr entries \<Rightarrow> entries
                                                     | _ \<Rightarrow> [])
                                          arrayKeys))) of
                        Some parsed \<Rightarrow> parsed
                      | None \<Rightarrow>
                          (if truthy (readProp raw ''match_id'') \<or> truthy (readProp raw ''probabilities'')
                           then raw else JNull))))
         | _ \<Rightarrow> JNull))"
  by pat_completeness auto
termination
proof (relation "measure (\<lambda>(h, raw). size raw)")
  have field: "map_of fs k = Some v \<Longrightarrow> size v < size (JObj fs)" for fs k and v :: jsval
  proof (induction fs)
    case Nil
    then show ?case by simp
  next
    case (Cons a fs)
    then show ?case by (cases a) (auto split: if_splits)
  qed
  have entry: "x \<in> set es \<Longrightarrow> size x < size (JArr es)" for es and x :: jsval
    by (induction es) auto
  have read: "size v < size (JObj fs)" if "readProp (JObj fs) k = v" and "v \<noteq> JUndefined"
    for fs k v
  proof (cases "map_of fs k")
    case None
    then show ?thesis using that by (simp add: readProp_def)
  next
    case (Some u)
    then have "u = v" using that by (simp add: readProp_def)
    then show ?thesis using field [of fs k u] Some by simp
  qed
  {
    show "wf (measure (\<lambda>(h :: host, raw). size raw))" by simp
  next
    fix h :: host and raw fs x
    assume "raw = JObj fs"
      and "x \<in> set (filter (\<lambda>v. typeof v = ''string'') (map (readProp (JObj fs)) textualKeys))"
    then obtain k where "readProp (JObj fs) k = x" and "typeof x = ''string''" by auto
    then have "size x < size (JObj fs)"
      using read [of fs k x] by (cases x) auto
    then show "((h, x), (h, raw)) \<in> measure (\<lambda>(h, raw). size raw)"
      using \<open>raw = JObj fs\<close> by simp
  next
    fix h :: host and raw fs x
    assume "raw = JObj fs"
      and "x \<in> set (concat (map (\<lambda>key. case readProp (JObj fs) key of JArr entries \<Rightarrow> entries | _ \<Rightarrow> [])
                               arrayKeys))"
    then obtain k where mem: "x \<in> set (case readProp (JObj fs) k of JArr entries \<Rightarrow> entries | _ \<Rightarrow> [])"
      by auto
    then obtain es where arr: "readProp (JObj fs) k = JArr es" and "x \<in> set es"
      by (cases "readProp (JObj fs) k") auto
    then have "size x < size (JArr es)" using entry by blast
    moreover have "size (JArr es) < size (JObj fs)"
      using read [OF arr] by simp
    ultimately show "((h, x), (h, raw)) \<in> measure (\<lambda>(h, raw). size raw)"
      using \<open>raw = JObj fs\<close> by simp
  }
qed

section \<open>The store, the environment and the ingestion collaborator\<close>

text \<open>A row of the table \<^verbatim>\<open>stats\<close>; the four values are nullable REAL cells.\<close>

record StatsRow =
  match_id :: int
  sport :: "string option"
  home_form :: "real option"
  away_form :: "real option"
  home_goals_avg :: "real option"
  away_goals_avg :: "real option"

text \<open>
  Calls that leave the predictor: the backfill requests to the ingestion collaborator
  and the calls of the two text generators.
\<close>

datatype request =
    TeamHistoryRequest int nat string
  | HeadToHeadRequest int int nat string
  | RemoteLlamaRequest string
  | OllamaRequest string

text \<open>
  The state of the process: the two tables, the memo \<^verbatim>\<open>fetchedHistoryTeams\<close> (its
  keys \<^verbatim>\<open>`${sport}:${teamId}`\<close> are kept as pairs, which they determine), and the
  log of the calls made so far.
\<close>

record world =
  matches_table :: "MatchRow list"
  stats_table :: "StatsRow list"
  fetchedHistoryTeams :: "(string \<times> int) list"
  requests :: "request list"

record MatchContext =
  sport :: string
  homeTeam :: "string option"
  awayTeam :: "string option"
  homeTeamRecent :: "MatchRow list"
  awayTeamRecent :: "MatchRow list"
  headToHead :: "MatchRow list"

text \<open>
  The environment of the process. The configuration variables are as the source reads
  them. The network side of the ingestion collaborator is a parameter: for football the
  guarded request together with \<^verbatim>\<open>saveMatches\<close>, which returns the fetched entries
  and the table after saving (an empty list and the unchanged table when the request
  fails, as the \<^verbatim>\<open>catch\<close> does); for basketball the same without a guard, so that a
  failed request is an exception. The two generator calls return the response data, or
  \<^verbatim>\<open>null\<close> when the call fails. The rendering of the prompt and SQLite's
  \<^verbatim>\<open>datetime\<close> (NULL as \<open>None\<close>) are parameters too.
\<close>

record env =
  LLAMA_SERVER_URL :: "string option"
  OLLAMA_MODEL :: "string option"
  API_FOOTBALL_KEY :: "string option"
  API_BASKETBALL_KEY :: "string option"
  footballTeamFetch :: "int \<Rightarrow> nat \<Rightarrow> MatchRow list \<Rightarrow> jsval list \<times> MatchRow list"
  basketballTeamFetch :: "int \<Rightarrow> nat \<Rightarrow> MatchRow list \<Rightarrow> exn + jsval list \<times> MatchRow list"
  footballH2HFetch :: "int \<Rightarrow> int \<Rightarrow> nat \<Rightarrow> MatchRow list \<Rightarrow> jsval list \<times> MatchRow list"
  basketballH2HFetch :: "int \<Rightarrow> int \<Rightarrow> nat \<Rightarrow> MatchRow list \<Rightarrow> exn + jsval list \<times> MatchRow list"
  callRemoteLlama :: "string \<Rightarrow> jsval"
  callOllama :: "string \<Rightarrow> jsval"
  buildPrompt :: "MatchRow \<Rightarrow> Features \<Rightarrow> MatchContext \<Rightarrow> string"
  datetime :: "string \<Rightarrow> int option"

definition TEAM_HISTORY_SIZE :: nat where
  "TEAM_HISTORY_SIZE = 12"

definition H2H_HISTORY_SIZE :: nat where
  "H2H_HISTORY_SIZE = 10"

text \<open>Truthiness of a nullable integer.\<close>

fun truthyInt :: "int option \<Rightarrow> bool" where
  "truthyInt None = False"
| "truthyInt (Some n) = (n \<noteq> 0)"

definition logRequest :: "request \<Rightarrow> world \<Rightarrow> world" where
  "logRequest r w = w\<lparr> requests := requests w @ [r] \<rparr>"

definition fetchFootballTeamHistory :: "env \<Rightarrow> int \<Rightarrow> nat \<Rightarrow> world \<Rightarrow> exn + jsval list \<times> world" where
  "fetchFootballTeamHistory e teamId last_n w =
     (if \<not> truthyStr (API_FOOTBALL_KEY e)
      then Inl (JsError ''API_FOOTBALL_KEY not set in environment (.env)'')
      else
        (case footballTeamFetch e teamId last_n (matches_table w) of
           (fetched, tbl) \<Rightarrow> Inr (fetched, w\<lparr> matches_table := tbl \<rparr>)))"

definition fetchBasketballTeamHistory :: "env \<Rightarrow> int \<Rightarrow> nat \<Rightarrow> world \<Rightarrow> exn + jsval list \<times> world" where
  "fetchBasketballTeamHistory e teamId last_n w =
     (let apiKey = (case API_BASKETBALL_KEY e of None \<Rightarrow> API_FOOTBALL_KEY e | Some k \<Rightarrow> Some k) in
      if \<not> truthyStr apiKey
      then Inl (JsError ''API_BASKETBALL_KEY not set in environment (.env)'')
      else
        (case basketballTeamFetch e teamId last_n (matches_table w) of
           Inl err \<Rightarrow> Inl err
         | Inr (fetched, tbl) \<Rightarrow> Inr (fetched, w\<lparr> matches_table := tbl \<rparr>)))"

definition fetchTeamHistory :: "env \<Rightarrow> int \<Rightarrow> nat \<Rightarrow> string \<Rightarrow> world \<Rightarrow> exn + jsval list \<times> world" where
  "fetchTeamHistory e teamId last_n sp w0 =
     (let w = logRequest (TeamHistoryRequest teamId last_n sp) w0 in
      if teamId = 0 then Inr ([], w)
      else if sp = ''basketball'' then fetchBasketballTeamHistory e teamId last_n w
      else fetchFootballTeamHistory e teamId last_n w)"

definition fetchFootballHeadToHead ::
  "env \<Rightarrow> int \<Rightarrow> int \<Rightarrow> nat \<Rightarrow> world \<Rightarrow> exn + jsval list \<times> world" where
  "fetchFootballHeadToHead e teamAId teamBId last_n w =
     (if \<not> truthyStr (API_FOOTBALL_KEY e)
      then Inl (JsError ''API_FOOTBALL_KEY not set in environment (.env)'')
      else
        (case footballH2HFetch e teamAId teamBId last_n (matches_table w) of
           (fetched, tbl) \<Rightarrow> Inr (fetched, w\<lparr> matches_table := tbl \<rparr>)))"

definition fetchBasketballHeadToHead ::
  "env \<Rightarrow> int \<Rightarrow> int \<Rightarrow> nat \<Rightarrow> world \<Rightarrow> exn + jsval list \<times> world" where
  "fetchBasketballHeadToHead e teamAId teamBId last_n w =
     (let apiKey = (case API_BASKETBALL_KEY e of None \<Rightarrow> API_FOOTBALL_KEY e | Some k \<Rightarrow> Some k) in
      if \<not> truthyStr apiKey
      then Inl (JsError ''API_BASKETBALL_KEY not set in environment (.env)'')
      else
        (case basketballH2HFetch e teamAId teamBId last_n (matches_table w) of
           Inl err \<Rightarrow> Inl err
         | Inr (fetched, tbl) \<Rightarrow> Inr (fetched, w\<lparr> matches_table := tbl \<rparr>)))"

definition fetchHeadToHeadHistory ::
  "env \<Rightarrow> int \<Rightarrow> int \<Rightarrow> nat \<Rightarrow> string \<Rightarrow> world \<Rightarrow> exn + jsval list \<times> world" where
  "fetchHeadToHeadHistory e teamAId teamBId last_n sp w0 =
     (let w = logRequest (HeadToHeadRequest teamAId teamBId last_n sp) w0 in
      if teamAId = 0 \<or> teamBId = 0 then Inr ([], w)
      else if sp = ''basketball'' then fetchBasketballHeadToHead e teamAId teamBId last_n w
      else fetchFootballHeadToHead e teamAId teamBId last_n w)"

section \<open>History context builder\<close>

text \<open>
  The two queries on the table \<^verbatim>\<open>matches\<close>. A comparison with NULL is not true, so
  a row whose date SQLite cannot read fails the test on \<^verbatim>\<open>beforeDate\<close>. The rows come
  newest first; where SQLite leaves the order of equal dates open, the model takes the
  reverse of the stable ascending order.
\<close>

definition coalesceSport :: "MatchRow \<Rightarrow> string" where
  "coalesceSport m = (case MatchRow.sport m of None \<Rightarrow> ''football'' | Some s \<Rightarrow> s)"

definition beforeTest :: "env \<Rightarrow> string option \<Rightarrow> MatchRow \<Rightarrow> bool" where
  "beforeTest e beforeDate m =
     (if truthyStr beforeDate
      then (case (case date m of None \<Rightarrow> None | Some d \<Rightarrow> datetime e d,
                  case beforeDate of None \<Rightarrow> None | Some b \<Rightarrow> datetime e b) of
              (Some a, Some b) \<Rightarrow> a < b
            | _ \<Rightarrow> False)
      else True)"

definition newestFirst :: "env \<Rightarrow> MatchRow list \<Rightarrow> MatchRow list" where
  "newestFirst e rows =
     rev (sort_key (\<lambda>m. case date m of None \<Rightarrow> None | Some d \<Rightarrow> datetime e d) rows)"

definition fetchRecentMatches ::
  "env \<Rightarrow> MatchRow list \<Rightarrow> string option \<Rightarrow> int \<Rightarrow> string option \<Rightarrow> string \<Rightarrow> nat \<Rightarrow> MatchRow list" where
  "fetchRecentMatches e db teamName excludeMatchId beforeDate sp limit =
     (if \<not> truthyStr teamName then []
      else
        take limit (newestFirst e
          (filter (\<lambda>m. (home_team m = teamName \<or> away_team m = teamName)
                       \<and> MatchRow.match_id m \<noteq> excludeMatchId
                       \<and> coalesceSport m = sp
                       \<and> date m \<noteq> None
                       \<and> home_goals m \<noteq> JNull
                       \<and> away_goals m \<noteq> JNull
                       \<and> beforeTest e beforeDate m)
             db)))"

definition fetchHeadToHead ::
  "env \<Rightarrow> MatchRow list \<Rightarrow> string option \<Rightarrow> string option \<Rightarrow> int \<Rightarrow> string option \<Rightarrow> string \<Rightarrow> nat
     \<Rightarrow> MatchRow list" where
  "fetchHeadToHead e db homeTeam' awayTeam' excludeMatchId beforeDate sp limit =
     (if \<not> truthyStr homeTeam' \<or> \<not> truthyStr awayTeam' then []
      else
        take limit (newestFirst e
          (filter (\<lambda>m. MatchRow.match_id m \<noteq> excludeMatchId
                       \<and> coalesceSport m = sp
                       \<and> ((home_team m = homeTeam' \<and> away_team m = awayTeam')
                            \<or> (home_team m = awayTeam' \<and> away_team m = homeTeam'))
                       \<and> date m \<noteq> None
                       \<and> home_goals m \<noteq> JNull
                       \<and> away_goals m \<noteq> JNull
                       \<and> beforeTest e beforeDate m)
             db)))"

text \<open>
  The first two blocks of \<^verbatim>\<open>hydrateMatchHistory\<close>, one for each team: a team whose
  key is not in the memo is fetched, and the key is added when the answer is a
  non-empty array.
\<close>

definition memoBackfill :: "env \<Rightarrow> string \<Rightarrow> int option \<Rightarrow> world \<Rightarrow> exn + world" where
  "memoBackfill e sp teamId w =
     (case teamId of
        None \<Rightarrow> Inr w
      | Some t \<Rightarrow>
          if t = 0 then Inr w
          else if (sp, t) \<in> set (fetchedHistoryTeams w) then Inr w
          else
            bindE (fetchTeamHistory e t TEAM_HISTORY_SIZE sp w) (\<lambda>(fetched, w1).
              if fetched \<noteq> []
              then Inr (w1\<lparr> fetchedHistoryTeams := setAdd (fetchedHistoryTeams w1) (sp, t) \<rparr>)
              else Inr w1))"

text \<open>
  The next two blocks, one for each team: the stored list is queried, and when it has
  fewer than 3 entries and the team has an id, the team is fetched and the list is
  queried again. The lists are local to \<^verbatim>\<open>hydrateMatchHistory\<close>.
\<close>

definition thresholdBackfill ::
  "env \<Rightarrow> MatchRow \<Rightarrow> string \<Rightarrow> string option \<Rightarrow> int option \<Rightarrow> world \<Rightarrow> exn + world" where
  "thresholdBackfill e m sp teamName teamId w =
     (let recent = fetchRecentMatches e (matches_table w) teamName (MatchRow.match_id m) (date m) sp
                     TEAM_HISTORY_SIZE
      in if length recent < 3 \<and> truthyInt teamId
         then
           (case teamId of
              None \<Rightarrow> Inr w
            | Some t \<Rightarrow>
                bindE (fetchTeamHistory e t TEAM_HISTORY_SIZE sp w) (\<lambda>(fetched, w1). Inr w1))
         else Inr w)"

definition thresholdHeadToHead :: "env \<Rightarrow> MatchRow \<Rightarrow> string \<Rightarrow> world \<Rightarrow> exn + world" where
  "thresholdHeadToHead e m sp w =
     (let h2h = fetchHeadToHead e (matches_table w) (home_team m) (away_team m) (MatchRow.match_id m)
                  (date m) sp H2H_HISTORY_SIZE
      in if length h2h < 3 \<and> truthyInt (home_team_id m) \<and> truthyInt (away_team_id m)
         then
           (case (home_team_id m, away_team_id m) of
              (Some a, Some b) \<Rightarrow>
                bindE (fetchHeadToHeadHistory e a b H2H_HISTORY_SIZE sp w) (\<lambda>(fetched, w1). Inr w1)
            | _ \<Rightarrow> Inr w)
         else Inr w)"

text \<open>The state after the two memo blocks.\<close>

definition memoStage :: "env \<Rightarrow> MatchRow \<Rightarrow> world \<Rightarrow> exn + world" where
  "memoStage e m w =
     bindE (memoBackfill e (coalesceSport m) (home_team_id m) w) (\<lambda>w1.
           memoBackfill e (coalesceSport m) (away_team_id m) w1)"

definition hydrateMatchHistory :: "env \<Rightarrow> MatchRow \<Rightarrow> world \<Rightarrow> exn + world" where
  "hydrateMatchHistory e m w =
     (let sp = coalesceSport m in
      bindE (memoStage e m w) (\<lambda>w2.
      bindE (thresholdBackfill e m sp (home_team m) (home_team_id m) w2) (\<lambda>w3.
      bindE (thresholdBackfill e m sp (away_team m) (away_team_id m) w3) (\<lambda>w4.
      thresholdHeadToHead e m sp w4))))"

definition getMatchContext :: "env \<Rightarrow> MatchRow list \<Rightarrow> MatchRow \<Rightarrow> MatchContext" where
  "getMatchContext e db m =
     (let sp = coalesceSport m in
      \<lparr> MatchContext.sport = sp,
        homeTeam = home_team m,
        awayTeam = away_team m,
        homeTeamRecent = fetchRecentMatches e db (home_team m) (MatchRow.match_id m) (date m) sp
                           TEAM_HISTORY_SIZE,
        awayTeamRecent = fetchRecentMatches e db (away_team m) (MatchRow.match_id m) (date m) sp
                           TEAM_HISTORY_SIZE,
        headToHead = fetchHeadToHead e db (home_team m) (away_team m) (MatchRow.match_id m) (date m) sp
                       H2H_HISTORY_SIZE \<rparr>)"

text \<open>The requests that a memo block adds.\<close>

definition memoExtra :: "string \<Rightarrow> int option \<Rightarrow> world \<Rightarrow> request list" where
  "memoExtra sp teamId w =
     (case teamId of
        None \<Rightarrow> []
      | Some t \<Rightarrow>
          if t \<noteq> 0 \<and> (sp, t) \<notin> set (fetchedHistoryTeams w)
          then [TeamHistoryRequest t TEAM_HISTORY_SIZE sp] else [])"

text \<open>The requests that a threshold block adds.\<close>

definition thresholdExtra ::
  "env \<Rightarrow> MatchRow \<Rightarrow> string \<Rightarrow> string option \<Rightarrow> int option \<Rightarrow> world \<Rightarrow> request list" where
  "thresholdExtra e m sp teamName teamId w =
     (case teamId of
        None \<Rightarrow> []
      | Some t \<Rightarrow>
          if t \<noteq> 0 \<and> length (fetchRecentMatches e (matches_table w) teamName (MatchRow.match_id m)
                                (date m) sp TEAM_HISTORY_SIZE) < 3
          then [TeamHistoryRequest t TEAM_HISTORY_SIZE sp] else [])"

text \<open>The number of backfill requests for a team in a log.\<close>

fun isTeamRequest :: "int \<Rightarrow> request \<Rightarrow> bool" where
  "isTeamRequest t (TeamHistoryRequest t' n sp) = (t' = t)"
| "isTeamRequest t r = False"

definition teamRequests :: "int \<Rightarrow> world \<Rightarrow> nat" where
  "teamRequests t w = length (filter (isTeamRequest t) (requests w))"

fun isGeneratorRequest :: "request \<Rightarrow> bool" where
  "isGeneratorRequest (RemoteLlamaRequest p) = True"
| "isGeneratorRequest (OllamaRequest p) = True"
| "isGeneratorRequest r = False"

definition generatorRequests :: "world \<Rightarrow> request list" where
  "generatorRequests w = filter isGeneratorRequest (requests w)"

section \<open>Tiered prediction orchestrator\<close>

text \<open>
  \<^verbatim>\<open>getMatchRecord\<close>: the first candidate id that is the key of a stored row. The
  query returns the sport with its default filled in and does not select the scores.
\<close>

definition getMatchRecord :: "host \<Rightarrow> MatchRow list \<Rightarrow> jsnum \<Rightarrow> MatchRow option" where
  "getMatchRecord h db matchId =
     (case List.maps (\<lambda>candidate.
               filter (\<lambda>r. Fin (of_int (MatchRow.match_id r)) = candidate) db)
             (makeCandidateMatchIds h (JNum matchId)) of
        [] \<Rightarrow> None
      | r # rs \<Rightarrow> Some (r\<lparr> MatchRow.sport := Some (coalesceSport r),
                             home_goals := JUndefined, away_goals := JUndefined \<rparr>))"

fun coalesce :: "string option list \<Rightarrow> string option" where
  "coalesce [] = None"
| "coalesce (None # xs) = coalesce xs"
| "coalesce (Some x # xs) = Some x"

text \<open>\<^verbatim>\<open>toNumber(cell) ?? 0\<close> for a REAL cell: NULL converts to 0.\<close>

definition featureValue :: "host \<Rightarrow> real option \<Rightarrow> real" where
  "featureValue h cell =
     (case toNumber h (case cell of None \<Rightarrow> JNull | Some x \<Rightarrow> JNum (Fin x)) of
        Some (Fin x) \<Rightarrow> x
      | _ \<Rightarrow> 0)"

definition getFeatures :: "host \<Rightarrow> world \<Rightarrow> int \<Rightarrow> string option \<Rightarrow> Features option" where
  "getFeatures h w matchId sportHint =
     (case find (\<lambda>s. StatsRow.match_id s = matchId) (stats_table w) of
        None \<Rightarrow> None
      | Some s \<Rightarrow>
          (let msport = (case find (\<lambda>m. MatchRow.match_id m = matchId) (matches_table w) of
                           None \<Rightarrow> None
                         | Some m \<Rightarrow> MatchRow.sport m);
               rowSport = coalesce [StatsRow.sport s, msport, sportHint]
           in if rowSport \<noteq> None \<and> rowSport = coalesce [msport, sportHint]
              then Some \<lparr> Features.sport = (case rowSport of
                                             Some sp \<Rightarrow> sp
                                           | None \<Rightarrow> (case sportHint of Some sp \<Rightarrow> sp | None \<Rightarrow> [])),
                          home_form = featureValue h (StatsRow.home_form s),
                          away_form = featureValue h (StatsRow.away_form s),
                          home_goals_avg = featureValue h (StatsRow.home_goals_avg s),
                          away_goals_avg = featureValue h (StatsRow.away_goals_avg s) \<rparr>
              else None))"

datatype outcome = ErrorResult string | PredictionResult Prediction

text \<open>The two generator tiers: \<open>None\<close> when the tier is skipped or falls through.\<close>

definition remoteTier ::
  "host \<Rightarrow> env \<Rightarrow> string \<Rightarrow> MatchRow \<Rightarrow> world \<Rightarrow> exn + Prediction option \<times> world" where
  "remoteTier h e prompt m w =
     (if truthyStr (LLAMA_SERVER_URL e)
      then
        (let w1 = logRequest (RemoteLlamaRequest prompt) w;
             remoteRaw = callRemoteLlama e prompt;
             parsed = normalizeIncomingPayload h remoteRaw
         in if truthy parsed
            then
              bindE (normalizePrediction h parsed (JNum (Fin (of_int (MatchRow.match_id m))))) (\<lambda>validated.
                case validated of
                  Some v \<Rightarrow>
                    Inr (Some (v\<lparr> engine := Some (case readProp parsed ''engine'' of
                                                      JStr src \<Rightarrow> src
                                                    | _ \<Rightarrow> ''llama'') \<rparr>), w1)
                | None \<Rightarrow> Inr (None, w1))
            else Inr (None, w1))
      else Inr (None, w))"

definition ollamaTier ::
  "host \<Rightarrow> env \<Rightarrow> string \<Rightarrow> MatchRow \<Rightarrow> world \<Rightarrow> exn + Prediction option \<times> world" where
  "ollamaTier h e prompt m w =
     (if truthyStr (OLLAMA_MODEL e)
      then
        (let w1 = logRequest (OllamaRequest prompt) w;
             ollamaRaw = callOllama e prompt;
             parsed = normalizeIncomingPayload h ollamaRaw
         in if truthy parsed
            then
              bindE (normalizePrediction h parsed (JNum (Fin (of_int (MatchRow.match_id m))))) (\<lambda>validated.
                case validated of
                  Some v \<Rightarrow> Inr (Some (v\<lparr> engine := Some ''ollama'' \<rparr>), w1)
                | None \<Rightarrow> Inr (None, w1))
            else Inr (None, w1))
      else Inr (None, w))"

text \<open>
  \<^verbatim>\<open>predictMatch\<close>. An exception of a backfill request leaves the function, as a
  rejected promise does; the three values of \<^verbatim>\<open>Math.random()\<close> are arguments.
\<close>

definition predictMatch ::
  "host \<Rightarrow> env \<Rightarrow> real \<Rightarrow> real \<Rightarrow> real \<Rightarrow> jsval \<Rightarrow> world \<Rightarrow> exn + outcome \<times> world" where
  "predictMatch h e r1 r2 r3 matchId w =
     (case toNumber h matchId of
        None \<Rightarrow> Inr (ErrorResult ''Ungueltige Match-ID'', w)
      | Some numericId \<Rightarrow>
          (case getMatchRecord h (matches_table w) numericId of
             None \<Rightarrow> Inr (ErrorResult ''Match nicht gefunden'', w)
           | Some m \<Rightarrow>
               bindE (hydrateMatchHistory e m w) (\<lambda>w1.
                 case getFeatures h w1 (MatchRow.match_id m) (MatchRow.sport m) of
                   None \<Rightarrow> Inr (ErrorResult ''Keine Features gefunden'', w1)
                 | Some features \<Rightarrow>
                     (let context = getMatchContext e (matches_table w1) m;
                          prompt = buildPrompt e m features context
                      in bindE (remoteTier h e prompt m w1) (\<lambda>(remote, w2).
                           case remote of
                             Some p \<Rightarrow> Inr (PredictionResult p, w2)
                           | None \<Rightarrow>
                               bindE (ollamaTier h e prompt m w2) (\<lambda>(local, w3).
                                 case local of
                                   Some p \<Rightarrow> Inr (PredictionResult p, w3)
                                 | None \<Rightarrow>
                                     Inr (PredictionResult (simpleRulePredict h m features r1 r2 r3),
                                          w3)))))))"

text \<open>Environments and stores of the closed examples.\<close>

definition offlineEnv :: env where
  "offlineEnv =
     \<lparr> LLAMA_SERVER_URL = None, OLLAMA_MODEL = None,
       API_FOOTBALL_KEY = Some ''key'', API_BASKETBALL_KEY = None,
       footballTeamFetch = (\<lambda>t n db. ([], db)),
       basketballTeamFetch = (\<lambda>t n db. Inr ([], db)),
       footballH2HFetch = (\<lambda>a b n db. ([], db)),
       basketballH2HFetch = (\<lambda>a b n db. Inr ([], db)),
       callRemoteLlama = (\<lambda>p. JNull), callOllama = (\<lambda>p. JNull),
       buildPrompt = (\<lambda>m f c. ''prompt''),
       datetime = map_of sampleDates \<rparr>"

definition sampleStats :: StatsRow where
  "sampleStats = \<lparr> StatsRow.match_id = 1335952, StatsRow.sport = Some ''football'',
       StatsRow.home_form = Some 0.8, StatsRow.away_form = Some 0.2,
       StatsRow.home_goals_avg = Some 2.5, StatsRow.away_goals_avg = Some 1.0 \<rparr>"

definition sampleWorld :: world where
  "sampleWorld = \<lparr> matches_table = [footballMatch,
                      played 1 ''2024-02-17T15:00:00+00:00'' ''Heim'' ''A'' (JNum (Fin 5)) (JNum (Fin 0))],
                    stats_table = [sampleStats],
                    fetchedHistoryTeams = [], requests = [] \<rparr>"

definition memoWorld :: world where
  "memoWorld = sampleWorld\<lparr> fetchedHistoryTeams := [(''football'', 33), (''football'', 34)] \<rparr>"

definition noKeyEnv :: env where
  "noKeyEnv = offlineEnv\<lparr> API_FOOTBALL_KEY := None \<rparr>"

text \<open>A stored basketball contest, and an environment whose basketball request fails.\<close>

definition basketballMatch :: MatchRow where
  "basketballMatch =
     footballMatch\<lparr> MatchRow.match_id := 5000000100, MatchRow.sport := Some ''basketball'',
                    home_team_id := Some 133, away_team_id := Some 134 \<rparr>"

definition basketballWorld :: world where
  "basketballWorld =
     \<lparr> matches_table = [basketballMatch],
       stats_table = [\<lparr> StatsRow.match_id = 5000000100, StatsRow.sport = Some ''basketball'',
                        StatsRow.home_form = Some 0.5, StatsRow.away_form = Some 0.5,
                        StatsRow.home_goals_avg = Some 80, StatsRow.away_goals_avg = Some 80 \<rparr>],
       fetchedHistoryTeams = [], requests = [] \<rparr>"

definition networkDownEnv :: env where
  "networkDownEnv =
     offlineEnv\<lparr> basketballTeamFetch := (\<lambda>t n db. Inl (JsError ''Network Error'')),
                  basketballH2HFetch := (\<lambda>a b n db. Inl (JsError ''Network Error'')) \<rparr>"

section \<open>Properties of the response normalizer\<close>

lemma getProp_defined: "v \<noteq> JNull \<Longrightarrow> v \<noteq> JUndefined \<Longrightarrow> getProp v k = Inr (readProp v k)"
  by (cases v) (simp_all add: readProp_def)

lemma nullish_defined: "nullish v (JObj fs) \<noteq> JNull \<and> nullish v (JObj fs) \<noteq> JUndefined"
  by (simp add: nullish_def)

lemma truthy_defined: "truthy v \<Longrightarrow> v \<noteq> JNull \<and> v \<noteq> JUndefined"
  by (cases v) simp_all

lemma getProp_nullish: "getProp (nullish v (JObj fs)) k = Inr (readProp (nullish v (JObj fs)) k)"
  using nullish_defined getProp_defined by blast

lemma bindE_Inr: "bindE (Inr x) f = f x"
  by (simp add: bindE_def)

lemma normalizePrediction_reject:
  "\<not> truthy payload \<or> typeof payload \<noteq> ''object'' \<Longrightarrow> normalizePrediction h payload mid = Inr None"
  by (simp add: normalizePrediction_def)

lemma normalizePrediction_object:
  assumes "truthy payload" and "typeof payload = ''object''"
  shows "normalizePrediction h payload mid =
     (case (probField h payload ''home'', probField h payload ''draw'', probField h payload ''away'') of
        (Some ph, Some pd, Some pa) \<Rightarrow>
          (let total = js_add (js_add ph pd) pa in
           if \<not> truthyNum total \<or> js_le total (Fin 0) then Inr None
           else Inr (Some \<lparr> Prediction.match_id = nullish (readProp payload ''match_id'') mid,
                  prediction = nullish (readProp payload ''prediction'') (JStr ''Unentschieden''),
                  probabilities = \<lparr> home = round_js (js_div ph total),
                                    draw = round_js (js_div pd total),
                                    away = round_js (js_div pa total) \<rparr>,
                  explanation = nullish (readProp payload ''explanation'') (JStr ''Keine Erklaerung vorhanden.''),
                  betting_advice =
                    \<lparr> recommendation = nullish (readProp (nullish (readProp payload ''betting_advice'') (JObj [])) ''recommendation'') (JStr ''Keine Empfehlung''),
                      confidence = (case confidenceField h payload of None \<Rightarrow> Fin 0 | Some c \<Rightarrow> round_js c),
                      reasoning = nullish (readProp (nullish (readProp payload ''betting_advice'') (JObj [])) ''reasoning'') (JStr ''Keine Begruendung vorhanden.'') \<rparr>,
                  engine = None \<rparr>))
      | _ \<Rightarrow> Inr None)"
proof -
  have d: "\<And>k. getProp payload k = Inr (readProp payload k)"
    using assms(1) truthy_defined getProp_defined by blast
  show ?thesis
    using assms
    by (simp add: normalizePrediction_def d getProp_nullish bindE_Inr probField_def confidenceField_def Let_def
        split: option.splits)
qed

lemma normalizePrediction_total: "\<exists>r. normalizePrediction h payload mid = Inr r"
proof (cases "truthy payload \<and> typeof payload = ''object''")
  case True
  then show ?thesis
    by (simp add: normalizePrediction_object Let_def split: option.splits)
next
  case False
  then show ?thesis using normalizePrediction_reject by blast
qed

lemma round2_bounds: "x * 100 - 1 / 2 < round2 x * 100 \<and> round2 x * 100 \<le> x * 100 + 1 / 2"
  unfolding round2_def by simp linarith






lemma normalizePrediction_rejects:
  assumes "probField h payload ''home'' = None \<or> probField h payload ''draw'' = None
           \<or> probField h payload ''away'' = None"
  shows "normalizePrediction h payload mid = Inr None"
proof (cases "truthy payload \<and> typeof payload = ''object''")
  case True
  then show ?thesis
    using assms by (auto simp: normalizePrediction_object split: option.splits)
next
  case False
  then show ?thesis using normalizePrediction_reject by blast
qed

lemma normalizePrediction_rejects_sum:
  assumes "probField h payload ''home'' = Some (Fin a)"
    and "probField h payload ''draw'' = Some (Fin b)"
    and "probField h payload ''away'' = Some (Fin c)"
    and "a + b + c \<le> 0"
  shows "normalizePrediction h payload mid = Inr None"
proof (cases "truthy payload \<and> typeof payload = ''object''")
  case True
  then show ?thesis
    using assms by (simp add: normalizePrediction_object)
next
  case False
  then show ?thesis using normalizePrediction_reject by blast
qed

text \<open>
  C3. For every raw payload the normalizer never raises, and it returns \<^verbatim>\<open>null\<close>
  whenever one of the three probability fields fails to parse to a finite number or the
  three parsed probabilities have a sum that is zero or negative. The first part holds
  (\<open>normalizePrediction_total\<close>), and so does the second for a field that converts to
  NaN and for a finite sum that is not positive (\<open>normalizePrediction_rejects\<close>,
  \<open>normalizePrediction_rejects_sum\<close>). The source misses the field that converts to
  Infinity: \<open>toNumber\<close> keeps it, the sum is Infinity, which passes the test on the
  total, and the result is a prediction whose home probability is NaN.
\<close>

theorem normalizePrediction_infinite_field:
  "probField sampleHost (payloadOf PosInf (Fin (1 / 5)) (Fin (3 / 10)) JNull) ''home'' = Some PosInf
   \<and> \<not> isFinite PosInf
   \<and> normalizePrediction sampleHost (payloadOf PosInf (Fin (1 / 5)) (Fin (3 / 10)) JNull) (JNum (Fin 7)) =
       Inr (Some \<lparr> Prediction.match_id = JNum (Fin 7), prediction = JStr ''Heimsieg'',
                    probabilities = \<lparr> home = NaN, draw = Fin 0, away = Fin 0 \<rparr>,
                    explanation = JStr ''Keine Erklaerung vorhanden.'',
                    betting_advice = \<lparr> recommendation = JStr ''Keine Empfehlung'',
                                       confidence = Fin 0,
                                       reasoning = JStr ''Keine Begruendung vorhanden.'' \<rparr>,
                    engine = None \<rparr>)"
  by (simp add: payloadOf_def probField_def readProp_def nullish_def toNumber_def
      normalizePrediction_def bindE_def truthyNum_def round2_def Let_def)

theorem normalizePrediction_infinite_field_witness:
  "normalizePrediction sampleHost (payloadOf PosInf (Fin (1 / 5)) (Fin (3 / 10)) JNull) (JNum (Fin 7))
     \<noteq> Inr None"
  using normalizePrediction_infinite_field by simp

section \<open>Properties of the rule-based predictor\<close>






section \<open>The confidence of a prediction\<close>







section \<open>Properties of composed match ids\<close>



section \<open>Properties of the feature engine\<close>










lemma statsLoop_wins_le_games:
  "statsLoop h teamName ms (w, g, t) = (w', g', t') \<Longrightarrow> w \<le> g \<Longrightarrow> w' \<le> g'"
proof (induction ms arbitrary: w g t)
  case Nil
  then show ?case by simp
next
  case (Cons m ms)
  show ?case
  proof (cases "featureToNumber h (home_goals m)")
    case None
    then show ?thesis using Cons by simp
  next
    case (Some hg)
    show ?thesis
    proof (cases "featureToNumber h (away_goals m)")
      case None
      then show ?thesis using Some Cons by simp
    next
      case ag: (Some ag)
      show ?thesis
      proof (cases "home_team m = teamName")
        case True
        then have "statsLoop h teamName ms
            (if js_gt hg ag then w + 1 else w, g + 1, js_add t hg) = (w', g', t')"
          using Cons.prems(1) Some ag by simp
        moreover have "(if js_gt hg ag then w + 1 else w) \<le> g + 1"
          using Cons.prems(2) by simp
        ultimately show ?thesis using Cons.IH by blast
      next
        case False
        then have "statsLoop h teamName ms
            (if js_gt ag hg then w + 1 else w, g + 1, js_add t ag) = (w', g', t')"
          using Cons.prems(1) Some ag by simp
        moreover have "(if js_gt ag hg then w + 1 else w) \<le> g + 1"
          using Cons.prems(2) by simp
        ultimately show ?thesis using Cons.IH by blast
      qed
    qed
  qed
qed

lemma form_quotient:
  assumes "w \<le> g"
  shows "js_div (Fin (real w)) (Fin (real (max g 1))) = Fin (real w / real (max g 1))
         \<and> 0 \<le> real w / real (max g 1) \<and> real w / real (max g 1) \<le> 1"
proof -
  have "w \<le> max g 1" using assms by simp
  then have "real w \<le> real (max g 1)" using of_nat_le_iff by blast
  moreover have "0 < real (max g 1)" by simp
  ultimately have "real w / real (max g 1) \<le> 1" by (simp add: divide_le_eq_1)
  then show ?thesis by simp
qed

text \<open>
  C10. For every match list, team name, reference date and window size, the form that
  the feature engine computes is a number in \<open>[0, 1]\<close>: the win count never exceeds
  the count of games with resolvable scores, and the divisor is \<open>max(games, 1)\<close>.
\<close>

theorem calcTeamStats_form_unit:
  "\<exists>x. form (calcTeamStats h matches teamName currentDateStr windowSize) = Fin x
       \<and> 0 \<le> x \<and> x \<le> 1"
proof -
  define cur where "cur = refDate h currentDateStr"
  define cut where "cut = (case cur of None \<Rightarrow> None | Some c \<Rightarrow> Some (shiftDate c (- 365)))"
  define relevant where
    "relevant = sliceLast windowSize
        (sort_key (dateKey h) (filter (relevantMatch h teamName cur cut) matches))"
  obtain w g t where loop: "statsLoop h teamName relevant (0, 0, Fin 0) = (w, g, t)"
    using prod_cases3 by blast
  have wg: "w \<le> g"
    using statsLoop_wins_le_games [OF loop] by simp
  note q = form_quotient [OF wg]
  have unfolded: "form (calcTeamStats h matches teamName currentDateStr windowSize) =
      (if \<not> truthyStr teamName \<or> relevant = [] then Fin 0
       else Fin (real w / real (max g 1)))"
    using q
    by (simp add: calcTeamStats_def Let_def refDate_def [symmetric] cur_def [symmetric]
        cut_def [symmetric] relevant_def [symmetric] loop)
  show ?thesis
    unfolding unfolded using q by auto
qed

theorem calcTeamStats_form_unit_witness:
  "form (calcTeamStats sampleHost (take 10 elevenMatches) (Some ''Heim'')
           (Some ''2024-05-04T14:00:00+00:00'') 10) = Fin (1 / 10)
   \<and> (0 :: real) \<le> 1 / 10 \<and> (1 / 10 :: real) \<le> 1"
proof -
  have "form (calcTeamStats sampleHost (take 10 elevenMatches) (Some ''Heim'')
           (Some ''2024-05-04T14:00:00+00:00'') 10) = Fin (1 / 10)"
    by code_simp
  then show ?thesis
    using calcTeamStats_form_unit [of sampleHost "take 10 elevenMatches" "Some ''Heim''"
        "Some ''2024-05-04T14:00:00+00:00''" 10]
    by simp
qed

section \<open>Properties of the history context builder\<close>

lemma bindE_InrD: "bindE m f = Inr r \<Longrightarrow> \<exists>x. m = Inr x \<and> f x = Inr r"
  by (cases m) (simp_all add: bindE_def)

lemma fetchTeamHistory_log:
  assumes "fetchTeamHistory e t n sp w = Inr (fetched, w1)"
  shows "requests w1 = requests w @ [TeamHistoryRequest t n sp]
         \<and> fetchedHistoryTeams w1 = fetchedHistoryTeams w"
  using assms
  by (auto simp: fetchTeamHistory_def fetchFootballTeamHistory_def fetchBasketballTeamHistory_def
      logRequest_def Let_def split: if_splits prod.splits sum.splits)

lemma fetchHeadToHeadHistory_log:
  assumes "fetchHeadToHeadHistory e a b n sp w = Inr (fetched, w1)"
  shows "requests w1 = requests w @ [HeadToHeadRequest a b n sp]"
  using assms
  by (auto simp: fetchHeadToHeadHistory_def fetchFootballHeadToHead_def fetchBasketballHeadToHead_def
      logRequest_def Let_def split: if_splits prod.splits sum.splits)

lemma memoBackfill_log:
  assumes "memoBackfill e sp teamId w = Inr w1"
  shows "requests w1 = requests w @ memoExtra sp teamId w
         \<and> (\<forall>k. k \<in> set (fetchedHistoryTeams w1) \<longrightarrow>
                k \<in> set (fetchedHistoryTeams w) \<or> teamId = Some (snd k))
         \<and> set (fetchedHistoryTeams w) \<subseteq> set (fetchedHistoryTeams w1)"
proof (cases teamId)
  case None
  then show ?thesis using assms by (simp add: memoBackfill_def memoExtra_def)
next
  case (Some t)
  show ?thesis
  proof (cases "t = 0 \<or> (sp, t) \<in> set (fetchedHistoryTeams w)")
    case True
    then have "w1 = w"
      using assms Some by (auto simp: memoBackfill_def split: if_splits)
    then show ?thesis using True Some by (auto simp: memoExtra_def)
  next
    case False
    then have "bindE (fetchTeamHistory e t TEAM_HISTORY_SIZE sp w) (\<lambda>(fetched, w1).
              if fetched \<noteq> []
              then Inr (w1\<lparr> fetchedHistoryTeams := setAdd (fetchedHistoryTeams w1) (sp, t) \<rparr>)
              else Inr w1) = Inr w1"
      using assms Some by (simp add: memoBackfill_def)
    then obtain fetched wf where f: "fetchTeamHistory e t TEAM_HISTORY_SIZE sp w = Inr (fetched, wf)"
      and r: "(if fetched \<noteq> []
              then Inr (wf\<lparr> fetchedHistoryTeams := setAdd (fetchedHistoryTeams wf) (sp, t) \<rparr>)
              else Inr wf) = (Inr w1 :: exn + world)"
      using bindE_InrD by fastforce
    note l = fetchTeamHistory_log [OF f]
    show ?thesis
    proof (cases "fetched = []")
      case True
      then have "w1 = wf" using r by simp
      then show ?thesis using l False Some by (simp add: memoExtra_def)
    next
      case nonempty: False
      then have "w1 = wf\<lparr> fetchedHistoryTeams := setAdd (fetchedHistoryTeams wf) (sp, t) \<rparr>"
        using r by simp
      then show ?thesis using l False Some by (auto simp: memoExtra_def setAdd_def)
    qed
  qed
qed

lemma thresholdBackfill_log:
  assumes "thresholdBackfill e m sp teamName teamId w = Inr w1"
  shows "requests w1 = requests w @ thresholdExtra e m sp teamName teamId w"
proof (cases teamId)
  case None
  then show ?thesis using assms by (simp add: thresholdBackfill_def thresholdExtra_def Let_def)
next
  case (Some t)
  show ?thesis
  proof (cases "t \<noteq> 0 \<and> length (fetchRecentMatches e (matches_table w) teamName (MatchRow.match_id m)
                                (date m) sp TEAM_HISTORY_SIZE) < 3")
    case False
    then show ?thesis
      using assms Some by (auto simp: thresholdBackfill_def thresholdExtra_def Let_def)
  next
    case True
    then have "bindE (fetchTeamHistory e t TEAM_HISTORY_SIZE sp w) (\<lambda>(fetched, w1). Inr w1) = Inr w1"
      using assms Some by (simp add: thresholdBackfill_def Let_def)
    then obtain fetched where "fetchTeamHistory e t TEAM_HISTORY_SIZE sp w = Inr (fetched, w1)"
      using bindE_InrD by fastforce
    then show ?thesis
      using fetchTeamHistory_log True Some by (simp add: thresholdExtra_def)
  qed
qed

lemma thresholdHeadToHead_log:
  assumes "thresholdHeadToHead e m sp w = Inr w1"
  shows "\<exists>rs. requests w1 = requests w @ rs
          \<and> (\<forall>r\<in>set rs. \<exists>a b n s. r = HeadToHeadRequest a b n s)"
proof (cases "length (fetchHeadToHead e (matches_table w) (home_team m) (away_team m)
                       (MatchRow.match_id m) (date m) sp H2H_HISTORY_SIZE) < 3
              \<and> truthyInt (home_team_id m) \<and> truthyInt (away_team_id m)")
  case False
  then have "w1 = w" using assms by (auto simp: thresholdHeadToHead_def Let_def)
  then show ?thesis by simp
next
  case True
  then obtain a b where ids: "home_team_id m = Some a" "away_team_id m = Some b"
    by (cases "home_team_id m"; cases "away_team_id m") auto
  then have "bindE (fetchHeadToHeadHistory e a b H2H_HISTORY_SIZE sp w) (\<lambda>(fetched, w1). Inr w1) = Inr w1"
    using assms True by (simp add: thresholdHeadToHead_def Let_def)
  then obtain fetched where "fetchHeadToHeadHistory e a b H2H_HISTORY_SIZE sp w = Inr (fetched, w1)"
    using bindE_InrD by fastforce
  then show ?thesis
    using fetchHeadToHeadHistory_log by fastforce
qed

lemma hydrateMatchHistory_stages:
  assumes "hydrateMatchHistory e m w = Inr w'"
  shows "\<exists>w1 w2 w3 w4 rs.
           memoBackfill e (coalesceSport m) (home_team_id m) w = Inr w1
         \<and> memoBackfill e (coalesceSport m) (away_team_id m) w1 = Inr w2
         \<and> memoStage e m w = Inr w2
         \<and> thresholdBackfill e m (coalesceSport m) (home_team m) (home_team_id m) w2 = Inr w3
         \<and> thresholdBackfill e m (coalesceSport m) (away_team m) (away_team_id m) w3 = Inr w4
         \<and> requests w' = requests w4 @ rs
         \<and> (\<forall>r\<in>set rs. \<exists>a b n s. r = HeadToHeadRequest a b n s)"
proof -
  obtain w2 where s2: "memoStage e m w = Inr w2"
    and r2: "bindE (thresholdBackfill e m (coalesceSport m) (home_team m) (home_team_id m) w2) (\<lambda>w3.
      bindE (thresholdBackfill e m (coalesceSport m) (away_team m) (away_team_id m) w3) (\<lambda>w4.
      thresholdHeadToHead e m (coalesceSport m) w4)) = Inr w'"
    using assms bindE_InrD unfolding hydrateMatchHistory_def Let_def by fastforce
  obtain w1 where s1: "memoBackfill e (coalesceSport m) (home_team_id m) w = Inr w1"
    and s1': "memoBackfill e (coalesceSport m) (away_team_id m) w1 = Inr w2"
    using s2 bindE_InrD unfolding memoStage_def by fastforce
  obtain w3 where s3: "thresholdBackfill e m (coalesceSport m) (home_team m) (home_team_id m) w2 = Inr w3"
    and r3: "bindE (thresholdBackfill e m (coalesceSport m) (away_team m) (away_team_id m) w3) (\<lambda>w4.
      thresholdHeadToHead e m (coalesceSport m) w4) = Inr w'"
    using r2 bindE_InrD by fastforce
  obtain w4 where s4: "thresholdBackfill e m (coalesceSport m) (away_team m) (away_team_id m) w3 = Inr w4"
    and r4: "thresholdHeadToHead e m (coalesceSport m) w4 = Inr w'"
    using r3 bindE_InrD by fastforce
  show ?thesis
    using s1 s1' s2 s3 s4 thresholdHeadToHead_log [OF r4] by blast
qed

lemma teamRequests_append:
  "requests w1 = requests w @ rs \<Longrightarrow>
     teamRequests t w1 = teamRequests t w + length (filter (isTeamRequest t) rs)"
  by (simp add: teamRequests_def)

text \<open>
  C7 (as amended). In a prediction request none of whose backfills raises, for teams
  with distinct non-zero ids, the builder sends the ingestion collaborator one backfill
  request for a team whose key is not yet in the memo, and one further request for the
  team exactly when its stored list of prior matches, queried after the preceding
  backfills, has fewer than 3 entries. A sparse team thus gets exactly one request when
  it is memoised and two otherwise, whatever the number of missing entries.
\<close>

theorem hydrateMatchHistory_backfill_requests:
  assumes "hydrateMatchHistory e m w = Inr w'"
    and "home_team_id m = Some th" and "th \<noteq> 0"
    and "away_team_id m = Some ta" and "ta \<noteq> 0" and "th \<noteq> ta"
  shows "\<exists>w2 w3.
           memoStage e m w = Inr w2
         \<and> thresholdBackfill e m (coalesceSport m) (home_team m) (home_team_id m) w2 = Inr w3
         \<and> teamRequests th w' = teamRequests th w
              + (if (coalesceSport m, th) \<in> set (fetchedHistoryTeams w) then 0 else 1)
              + (if length (fetchRecentMatches e (matches_table w2) (home_team m) (MatchRow.match_id m)
                              (date m) (coalesceSport m) TEAM_HISTORY_SIZE) < 3 then 1 else 0)
         \<and> teamRequests ta w' = teamRequests ta w
              + (if (coalesceSport m, ta) \<in> set (fetchedHistoryTeams w) then 0 else 1)
              + (if length (fetchRecentMatches e (matches_table w3) (away_team m) (MatchRow.match_id m)
                              (date m) (coalesceSport m) TEAM_HISTORY_SIZE) < 3 then 1 else 0)"
proof -
  define sp where "sp = coalesceSport m"
  obtain w1 w2 w3 w4 rs where
    s1: "memoBackfill e sp (home_team_id m) w = Inr w1"
    and s2: "memoBackfill e sp (away_team_id m) w1 = Inr w2"
    and ms: "memoStage e m w = Inr w2"
    and s3: "thresholdBackfill e m sp (home_team m) (home_team_id m) w2 = Inr w3"
    and s4: "thresholdBackfill e m sp (away_team m) (away_team_id m) w3 = Inr w4"
    and s5: "requests w' = requests w4 @ rs"
    and h2h: "\<forall>r\<in>set rs. \<exists>a b n s. r = HeadToHeadRequest a b n s"
    using hydrateMatchHistory_stages [OF assms(1)] unfolding sp_def by blast
  note l1 = memoBackfill_log [OF s1]
  note l2 = memoBackfill_log [OF s2]
  note l3 = thresholdBackfill_log [OF s3]
  note l4 = thresholdBackfill_log [OF s4]
  have none: "filter (isTeamRequest t) rs = []" for t
    using h2h by (auto simp: filter_empty_conv)
  have memo_ta: "(sp, ta) \<in> set (fetchedHistoryTeams w1) \<longleftrightarrow> (sp, ta) \<in> set (fetchedHistoryTeams w)"
    using l1 assms(2,6) by auto
  have all: "requests w' = requests w @ memoExtra sp (Some th) w @ memoExtra sp (Some ta) w1
               @ thresholdExtra e m sp (home_team m) (Some th) w2
               @ thresholdExtra e m sp (away_team m) (Some ta) w3 @ rs"
    using l1 l2 l3 l4 s5 assms(2,4) by simp
  have cnt: "teamRequests t w' = teamRequests t w
      + length (filter (isTeamRequest t) (memoExtra sp (Some th) w))
      + length (filter (isTeamRequest t) (memoExtra sp (Some ta) w1))
      + length (filter (isTeamRequest t) (thresholdExtra e m sp (home_team m) (Some th) w2))
      + length (filter (isTeamRequest t) (thresholdExtra e m sp (away_team m) (Some ta) w3))" for t
    using all none [of t] by (simp add: teamRequests_def)
  have home: "teamRequests th w' = teamRequests th w
              + (if (sp, th) \<in> set (fetchedHistoryTeams w) then 0 else 1)
              + (if length (fetchRecentMatches e (matches_table w2) (home_team m) (MatchRow.match_id m)
                              (date m) sp TEAM_HISTORY_SIZE) < 3 then 1 else 0)"
    using assms(3,5,6) by (simp add: cnt [of th] memoExtra_def thresholdExtra_def)
  have away: "teamRequests ta w' = teamRequests ta w
              + (if (sp, ta) \<in> set (fetchedHistoryTeams w) then 0 else 1)
              + (if length (fetchRecentMatches e (matches_table w3) (away_team m) (MatchRow.match_id m)
                              (date m) sp TEAM_HISTORY_SIZE) < 3 then 1 else 0)"
    using assms(3,5,6) memo_ta by (simp add: cnt [of ta] memoExtra_def thresholdExtra_def)
  show ?thesis
    using ms s3 home away assms(2) unfolding sp_def by blast
qed

theorem hydrateMatchHistory_backfill_requests_witness:
  "hydrateMatchHistory offlineEnv footballMatch memoWorld =
     Inr (memoWorld\<lparr> requests := [TeamHistoryRequest 33 12 ''football'',
                                    TeamHistoryRequest 34 12 ''football'',
                                    HeadToHeadRequest 33 34 10 ''football''] \<rparr>)
   \<and> home_team_id footballMatch = Some 33 \<and> away_team_id footballMatch = Some 34
   \<and> (coalesceSport footballMatch, 33) \<in> set (fetchedHistoryTeams memoWorld)
   \<and> length (fetchRecentMatches offlineEnv (matches_table memoWorld) (home_team footballMatch)
               (MatchRow.match_id footballMatch) (date footballMatch) (coalesceSport footballMatch)
               TEAM_HISTORY_SIZE) = 1
   \<and> teamRequests 33 memoWorld = 0
   \<and> teamRequests 33 (memoWorld\<lparr> requests := [TeamHistoryRequest 33 12 ''football'',
                                    TeamHistoryRequest 34 12 ''football'',
                                    HeadToHeadRequest 33 34 10 ''football''] \<rparr>) = 1
   \<and> (\<exists>w2 w3.
           memoStage offlineEnv footballMatch memoWorld = Inr w2
         \<and> thresholdBackfill offlineEnv footballMatch (coalesceSport footballMatch)
              (home_team footballMatch) (home_team_id footballMatch) w2 = Inr w3
         \<and> teamRequests 33 (memoWorld\<lparr> requests := [TeamHistoryRequest 33 12 ''football'',
                                    TeamHistoryRequest 34 12 ''football'',
                                    HeadToHeadRequest 33 34 10 ''football''] \<rparr>)
             = teamRequests 33 memoWorld
              + (if (coalesceSport footballMatch, 33) \<in> set (fetchedHistoryTeams memoWorld) then 0 else 1)
              + (if length (fetchRecentMatches offlineEnv (matches_table w2) (home_team footballMatch)
                              (MatchRow.match_id footballMatch) (date footballMatch)
                              (coalesceSport footballMatch) TEAM_HISTORY_SIZE) < 3 then 1 else 0))"
proof -
  have run: "hydrateMatchHistory offlineEnv footballMatch memoWorld =
     Inr (memoWorld\<lparr> requests := [TeamHistoryRequest 33 12 ''football'',
                                    TeamHistoryRequest 34 12 ''football'',
                                    HeadToHeadRequest 33 34 10 ''football''] \<rparr>)"
    by code_simp
  have ids: "home_team_id footballMatch = Some 33" "(33 :: int) \<noteq> 0"
    "away_team_id footballMatch = Some 34" "(34 :: int) \<noteq> 0" "(33 :: int) \<noteq> 34"
    by (simp_all add: footballMatch_def)
  have memo: "(coalesceSport footballMatch, 33) \<in> set (fetchedHistoryTeams memoWorld)"
    by code_simp
  have sparse: "length (fetchRecentMatches offlineEnv (matches_table memoWorld) (home_team footballMatch)
               (MatchRow.match_id footballMatch) (date footballMatch) (coalesceSport footballMatch)
               TEAM_HISTORY_SIZE) = 1"
    by code_simp
  have before: "teamRequests 33 memoWorld = 0"
    by code_simp
  have after: "teamRequests 33 (memoWorld\<lparr> requests := [TeamHistoryRequest 33 12 ''football'',
                                    TeamHistoryRequest 34 12 ''football'',
                                    HeadToHeadRequest 33 34 10 ''football''] \<rparr>) = 1"
    by code_simp
  show ?thesis
    using hydrateMatchHistory_backfill_requests [OF run ids] run ids(1,3) memo sparse before after
    by blast
qed

text \<open>
  The claim as it is written fails for a team that is not memoised: the team \<open>33\<close> has
  one stored prior match, the first request brings nothing, and the builder sends a
  second request for the same team.
\<close>

theorem hydrateMatchHistory_two_requests:
  "length (fetchRecentMatches offlineEnv (matches_table sampleWorld) (home_team footballMatch)
               (MatchRow.match_id footballMatch) (date footballMatch) (coalesceSport footballMatch)
               TEAM_HISTORY_SIZE) = 1
   \<and> hydrateMatchHistory offlineEnv footballMatch sampleWorld =
       Inr (sampleWorld\<lparr> requests := [TeamHistoryRequest 33 12 ''football'',
                                        TeamHistoryRequest 34 12 ''football'',
                                        TeamHistoryRequest 33 12 ''football'',
                                        TeamHistoryRequest 34 12 ''football'',
                                        HeadToHeadRequest 33 34 10 ''football''] \<rparr>)
   \<and> teamRequests 33 sampleWorld = 0
   \<and> teamRequests 33 (sampleWorld\<lparr> requests := [TeamHistoryRequest 33 12 ''football'',
                                        TeamHistoryRequest 34 12 ''football'',
                                        TeamHistoryRequest 33 12 ''football'',
                                        TeamHistoryRequest 34 12 ''football'',
                                        HeadToHeadRequest 33 34 10 ''football''] \<rparr>) = 2"
  by code_simp

section \<open>Properties of the orchestrator\<close>

lemma memoExtra_no_generator: "filter isGeneratorRequest (memoExtra sp teamId w) = []"
  by (simp add: memoExtra_def split: option.splits)

lemma thresholdExtra_no_generator:
  "filter isGeneratorRequest (thresholdExtra e m sp teamName teamId w) = []"
  by (simp add: thresholdExtra_def split: option.splits)

lemma hydrateMatchHistory_no_generator:
  assumes "hydrateMatchHistory e m w = Inr w'"
  shows "generatorRequests w' = generatorRequests w"
proof -
  obtain w1 w2 w3 w4 rs where
    s1: "memoBackfill e (coalesceSport m) (home_team_id m) w = Inr w1"
    and s2: "memoBackfill e (coalesceSport m) (away_team_id m) w1 = Inr w2"
    and s3: "thresholdBackfill e m (coalesceSport m) (home_team m) (home_team_id m) w2 = Inr w3"
    and s4: "thresholdBackfill e m (coalesceSport m) (away_team m) (away_team_id m) w3 = Inr w4"
    and s5: "requests w' = requests w4 @ rs"
    and h2h: "\<forall>r\<in>set rs. \<exists>a b n s. r = HeadToHeadRequest a b n s"
    using hydrateMatchHistory_stages [OF assms] by blast
  have none: "filter isGeneratorRequest rs = []"
    using h2h by (auto simp: filter_empty_conv)
  have g1: "generatorRequests w1 = generatorRequests w"
    using memoBackfill_log [OF s1] by (simp add: generatorRequests_def memoExtra_no_generator)
  have g2: "generatorRequests w2 = generatorRequests w1"
    using memoBackfill_log [OF s2] by (simp add: generatorRequests_def memoExtra_no_generator)
  have g3: "generatorRequests w3 = generatorRequests w2"
    using thresholdBackfill_log [OF s3] by (simp add: generatorRequests_def thresholdExtra_no_generator)
  have g4: "generatorRequests w4 = generatorRequests w3"
    using thresholdBackfill_log [OF s4] by (simp add: generatorRequests_def thresholdExtra_no_generator)
  have g5: "generatorRequests w' = generatorRequests w4"
    using s5 none by (simp add: generatorRequests_def)
  show ?thesis using g1 g2 g3 g4 g5 by simp
qed

text \<open>
  C2 (as amended). If neither the remote generator endpoint nor the local model name is
  configured, then for every contest whose match record exists, whose backfill requests
  do not raise and whose features exist, \<open>predictMatch\<close> returns the prediction of
  the rule-based predictor, with engine \<open>rule-based\<close>: not \<^verbatim>\<open>null\<close>, not an error
  object and not an exception. No generator is called.
\<close>

theorem predictMatch_rule_based:
  assumes "\<not> truthyStr (LLAMA_SERVER_URL e)" and "\<not> truthyStr (OLLAMA_MODEL e)"
    and "toNumber h matchId = Some n"
    and "getMatchRecord h (matches_table w) n = Some m"
    and "hydrateMatchHistory e m w = Inr w1"
    and "getFeatures h w1 (MatchRow.match_id m) (MatchRow.sport m) = Some features"
  shows "predictMatch h e r1 r2 r3 matchId w =
           Inr (PredictionResult (simpleRulePredict h m features r1 r2 r3), w1)
         \<and> engine (simpleRulePredict h m features r1 r2 r3) = Some ''rule-based''
         \<and> generatorRequests w1 = generatorRequests w"
proof -
  have remote: "remoteTier h e p m w1 = Inr (None, w1)" for p
    using assms(1) by (simp add: remoteTier_def)
  have ollama: "ollamaTier h e p m w1 = Inr (None, w1)" for p
    using assms(2) by (simp add: ollamaTier_def)
  have run: "predictMatch h e r1 r2 r3 matchId w =
           Inr (PredictionResult (simpleRulePredict h m features r1 r2 r3), w1)"
    by (simp add: predictMatch_def assms(3,4,5,6) bindE_def remote ollama Let_def)
  have eng: "engine (simpleRulePredict h m features r1 r2 r3) = Some ''rule-based''"
    by (simp add: simpleRulePredict_def Let_def split: prod.splits)
  show ?thesis
    using run eng hydrateMatchHistory_no_generator [OF assms(5)] by simp
qed

theorem predictMatch_rule_based_witness:
  "\<not> truthyStr (LLAMA_SERVER_URL offlineEnv) \<and> \<not> truthyStr (OLLAMA_MODEL offlineEnv)
   \<and> toNumber sampleHost (JNum (Fin 1335952)) = Some (Fin 1335952)
   \<and> getMatchRecord sampleHost (matches_table memoWorld) (Fin 1335952)
       = Some (footballMatch\<lparr> home_goals := JUndefined, away_goals := JUndefined \<rparr>)
   \<and> fst (projr (predictMatch sampleHost offlineEnv (1 / 2) (1 / 2) (1 / 2) (JNum (Fin 1335952)) memoWorld))
       = PredictionResult (simpleRulePredict sampleHost
           (footballMatch\<lparr> home_goals := JUndefined, away_goals := JUndefined \<rparr>)
           (featuresOf 0.8 0.2 2.5 1.0) (1 / 2) (1 / 2) (1 / 2))
   \<and> isl (predictMatch sampleHost offlineEnv (1 / 2) (1 / 2) (1 / 2) (JNum (Fin 1335952)) memoWorld) = False"
proof -
  define m where "m = footballMatch\<lparr> home_goals := JUndefined, away_goals := JUndefined \<rparr>"
  define w1 where "w1 = memoWorld\<lparr> requests := [TeamHistoryRequest 33 12 ''football'',
                                    TeamHistoryRequest 34 12 ''football'',
                                    HeadToHeadRequest 33 34 10 ''football''] \<rparr>"
  have c1: "\<not> truthyStr (LLAMA_SERVER_URL offlineEnv)" and c2: "\<not> truthyStr (OLLAMA_MODEL offlineEnv)"
    by (simp_all add: offlineEnv_def)
  have n: "toNumber sampleHost (JNum (Fin 1335952)) = Some (Fin 1335952)"
    by (simp add: toNumber_def)
  have r: "getMatchRecord sampleHost (matches_table memoWorld) (Fin 1335952) = Some m"
    unfolding m_def by code_simp
  have hy: "hydrateMatchHistory offlineEnv m memoWorld = Inr w1"
    unfolding m_def w1_def by code_simp
  have f: "getFeatures sampleHost w1 (MatchRow.match_id m) (MatchRow.sport m)
             = Some (featuresOf 0.8 0.2 2.5 1.0)"
    unfolding m_def w1_def by code_simp
  show ?thesis
    using predictMatch_rule_based [OF c1 c2 n r hy f, of "1 / 2" "1 / 2" "1 / 2"] c1 c2 n r
    unfolding m_def by simp
qed

text \<open>
  The claim as it is written fails where a backfill request raises: without the key of
  the football service the ingestion collaborator throws, and \<open>predictMatch\<close> passes
  the exception on, although the match record and the features exist and no generator
  is configured.
\<close>

theorem predictMatch_backfill_exception:
  "\<not> truthyStr (LLAMA_SERVER_URL noKeyEnv) \<and> \<not> truthyStr (OLLAMA_MODEL noKeyEnv)
   \<and> getMatchRecord sampleHost (matches_table sampleWorld) (Fin 1335952)
       = Some (footballMatch\<lparr> home_goals := JUndefined, away_goals := JUndefined \<rparr>)
   \<and> getFeatures sampleHost sampleWorld 1335952 (Some ''football'') = Some (featuresOf 0.8 0.2 2.5 1.0)
   \<and> predictMatch sampleHost noKeyEnv (1 / 2) (1 / 2) (1 / 2) (JNum (Fin 1335952)) sampleWorld
       = Inl (JsError ''API_FOOTBALL_KEY not set in environment (.env)'')"
  by code_simp

text \<open>
  The same happens, with the key of the service in place, when the request of the
  basketball service fails: unlike the football request it is not guarded.
\<close>

lemma predictMatch_basketball_request_fails:
  "truthyStr (API_FOOTBALL_KEY networkDownEnv)
   \<and> getFeatures sampleHost basketballWorld 5000000100 (Some ''basketball'')
       = Some \<lparr> Features.sport = ''basketball'', home_form = 1 / 2, away_form = 1 / 2,
                 home_goals_avg = 80, away_goals_avg = 80 \<rparr>
   \<and> predictMatch sampleHost networkDownEnv (1 / 2) (1 / 2) (1 / 2) (JNum (Fin 100)) basketballWorld
       = Inl (JsError ''Network Error'')"
  by code_simp

end
